theory Spec2Isabelle
  imports Main
begin

section \<open>Data model\<close>

text \<open>
  The image controller of the MayaLens API (\<^verbatim>\<open>api/src/controllers/imageController.ts\<close>)
  works on three tables of the relational database through the Prisma client: products,
  product images and image generations (the generation jobs). The tables are modelled
  as lists of rows in insertion order, identifiers and texts as strings, instants as
  natural numbers (milliseconds).
\<close>

text \<open>
  The role enumeration comes from the generated Prisma client, which is not part of the
  sources; its members are the ones the sources use (\<^verbatim>\<open>UserRole.ADMIN\<close>,
  \<^verbatim>\<open>UserRole.TEAM_OWNER\<close>, \<^verbatim>\<open>UserRole.TEAM_MEMBER\<close>).
\<close>

datatype UserRole = ADMIN | TEAM_OWNER | TEAM_MEMBER

text \<open>
  Modelled from the spec: the declaration of the enumeration \<^verbatim>\<open>GenerationStatus\<close> (generated
  Prisma client) is missing from the sources. The specification names the four states
  \<^verbatim>\<open>PENDING\<close>, \<^verbatim>\<open>RUNNING\<close>, \<^verbatim>\<open>COMPLETED\<close>, \<^verbatim>\<open>FAILED\<close>; the controller itself
  writes only \<^verbatim>\<open>PENDING\<close>, \<^verbatim>\<open>COMPLETED\<close> and \<^verbatim>\<open>FAILED\<close>.
\<close>

datatype GenerationStatus = PENDING | RUNNING | COMPLETED | FAILED

record User =
  user_id :: string
  user_role :: UserRole

record Product =
  product_id :: string
  product_userId :: string
  product_name :: string

record ProductImage =
  image_id :: string
  image_productId :: string
  image_imageUrl :: string
  image_altText :: string
  image_isPrimary :: bool
  image_createdAt :: nat

record ImageGeneration =
  gen_id :: string
  gen_prompt :: string
  gen_style :: string
  gen_format :: string
  gen_status :: GenerationStatus
  gen_userId :: string
  gen_productId :: "string option"
  gen_imageUrl :: "string option"
  gen_errorMessage :: "string option"
  gen_createdAt :: nat
  gen_completedAt :: "nat option"

record Database =
  products :: "Product list"
  productImages :: "ProductImage list"
  imageGenerations :: "ImageGeneration list"

definition emptyDatabase :: Database where
  "emptyDatabase = \<lparr>products = [], productImages = [], imageGenerations = []\<rparr>"

subsection \<open>HTTP responses\<close>

text \<open>
  A response is the status given to \<^verbatim>\<open>res.status\<close> and the JSON object given to
  \<^verbatim>\<open>res.json\<close>. The payload under \<^verbatim>\<open>data\<close> is the selected row. The select clauses
  also join the display names of the owner and of the product; the model keeps the
  foreign keys those joins follow (\<^verbatim>\<open>user.id\<close> is the row's \<^verbatim>\<open>userId\<close>).
\<close>

record GenerationSummary =
  summary_id :: string
  summary_prompt :: string
  summary_style :: string
  summary_format :: string
  summary_status :: GenerationStatus
  summary_createdAt :: nat
  summary_product :: "(string \<times> string) option"

datatype Payload =
    NoData
  | GenerationStarted GenerationSummary
  | GenerationRecord ImageGeneration
  | ImageRecord ProductImage string

record Response =
  res_status :: nat
  res_success :: bool
  res_message :: "string option"
  res_error :: "string option"
  res_data :: Payload

definition failure :: "nat \<Rightarrow> string \<Rightarrow> string \<Rightarrow> Response" where
  "failure code msg err =
     \<lparr>res_status = code, res_success = False, res_message = Some msg,
      res_error = Some err, res_data = NoData\<rparr>"

definition success :: "nat \<Rightarrow> string \<Rightarrow> Payload \<Rightarrow> Response" where
  "success code msg d =
     \<lparr>res_status = code, res_success = True, res_message = Some msg,
      res_error = None, res_data = d\<rparr>"

section \<open>The Prisma operations\<close>

text \<open>
  Every Prisma call is awaited inside a \<^verbatim>\<open>try\<close> block, and each handler has a
  \<^verbatim>\<open>catch\<close> that answers 500. A call therefore returns a value or throws. The
  argument \<open>fault\<close> of each operation is the environment's decision that this call throws
  (connection lost, timeout); a call that throws writes nothing. The other reasons to
  throw are the ones Prisma documents: an update or delete of a row that does not exist,
  an insert that repeats a primary key. \<open>TypeError\<close> is JavaScript's own: a property
  read from \<^verbatim>\<open>null\<close>.
\<close>

datatype Thrown = DatabaseFailure | RecordNotFound | UniqueConstraint | TypeError

definition product_findUnique :: "bool \<Rightarrow> Database \<Rightarrow> string \<Rightarrow> Thrown + Product option" where
  "product_findUnique fault db pid =
     (if fault then Inl DatabaseFailure
      else Inr (find (\<lambda>p. product_id p = pid) (products db)))"

definition lookupGeneration :: "Database \<Rightarrow> string \<Rightarrow> ImageGeneration option" where
  "lookupGeneration db jid = find (\<lambda>g. gen_id g = jid) (imageGenerations db)"

definition imageGeneration_findUnique ::
  "bool \<Rightarrow> Database \<Rightarrow> string \<Rightarrow> Thrown + ImageGeneration option" where
  "imageGeneration_findUnique fault db jid =
     (if fault then Inl DatabaseFailure else Inr (lookupGeneration db jid))"

definition imageGeneration_create ::
  "bool \<Rightarrow> Database \<Rightarrow> ImageGeneration \<Rightarrow> Thrown + Database" where
  "imageGeneration_create fault db row =
     (if fault then Inl DatabaseFailure
      else if gen_id row \<in> gen_id ` set (imageGenerations db) then Inl UniqueConstraint
      else Inr (db\<lparr>imageGenerations := imageGenerations db @ [row]\<rparr>))"

text \<open>
  The \<^verbatim>\<open>data\<close> object of an update names the columns to write; the others keep their
  values. The \<^verbatim>\<open>where\<close> clause of both updates of the controller is the id alone.
\<close>

record GenerationPatch =
  patch_status :: "GenerationStatus option"
  patch_imageUrl :: "string option"
  patch_errorMessage :: "string option"
  patch_completedAt :: "nat option"

definition applyPatch :: "GenerationPatch \<Rightarrow> ImageGeneration \<Rightarrow> ImageGeneration" where
  "applyPatch p g =
     g\<lparr>gen_status := (case patch_status p of None \<Rightarrow> gen_status g | Some s \<Rightarrow> s),
       gen_imageUrl := (case patch_imageUrl p of None \<Rightarrow> gen_imageUrl g | Some u \<Rightarrow> Some u),
       gen_errorMessage :=
         (case patch_errorMessage p of None \<Rightarrow> gen_errorMessage g | Some m \<Rightarrow> Some m),
       gen_completedAt :=
         (case patch_completedAt p of None \<Rightarrow> gen_completedAt g | Some t \<Rightarrow> Some t)\<rparr>"

definition imageGeneration_update ::
  "bool \<Rightarrow> Database \<Rightarrow> string \<Rightarrow> GenerationPatch \<Rightarrow> Thrown + Database" where
  "imageGeneration_update fault db jid p =
     (if fault then Inl DatabaseFailure
      else if jid \<notin> gen_id ` set (imageGenerations db) then Inl RecordNotFound
      else Inr (db\<lparr>imageGenerations :=
                  map (\<lambda>g. if gen_id g = jid then applyPatch p g else g) (imageGenerations db)\<rparr>))"

section \<open>Status query\<close>

text \<open>
  \<^verbatim>\<open>getImageGeneration\<close>: look the job up by id, answer 404 when there is none, 403 when
  the caller is neither an administrator nor the owner, 200 with the row otherwise, and
  500 when the lookup throws. \<^verbatim>\<open>req.user\<close> is optional: without a user both
  comparisons are false.
\<close>

definition canAccessGeneration :: "User option \<Rightarrow> ImageGeneration \<Rightarrow> bool" where
  "canAccessGeneration user g =
     (case user of None \<Rightarrow> False
      | Some u \<Rightarrow> user_role u = ADMIN \<or> user_id u = gen_userId g)"

definition getImageGeneration ::
  "bool \<Rightarrow> User option \<Rightarrow> string \<Rightarrow> Database \<Rightarrow> Response \<times> Database" where
  "getImageGeneration fault user jid db =
     (case imageGeneration_findUnique fault db jid of
        Inl _ \<Rightarrow>
          (failure 500 ''Internal server error while retrieving image generation''
             ''INTERNAL_ERROR'', db)
      | Inr None \<Rightarrow> (failure 404 ''Image generation not found'' ''GENERATION_NOT_FOUND'', db)
      | Inr (Some g) \<Rightarrow>
          if \<not> canAccessGeneration user g
          then (failure 403 ''You can only access your own image generations''
                  ''INSUFFICIENT_PERMISSIONS'', db)
          else (success 200 ''Image generation retrieved successfully'' (GenerationRecord g), db))"

section \<open>Submission\<close>

text \<open>
  The body of a submission as the handler reads it: \<^verbatim>\<open>prompt\<close>, \<^verbatim>\<open>style\<close>, an optional
  \<^verbatim>\<open>format\<close> (default \<^verbatim>\<open>ImageFormat.PNG\<close>) and an optional \<^verbatim>\<open>productId\<close>. The
  environment of one call: whether each of the two Prisma calls throws, the id the
  database gives the new row and the instant of its \<^verbatim>\<open>createdAt\<close>.
\<close>

record GenerateBody =
  body_prompt :: string
  body_style :: string
  body_format :: "string option"
  body_productId :: "string option"

record GenerateEnv =
  env_findThrows :: bool
  env_createThrows :: bool
  env_newId :: string
  env_now :: nat

text \<open>
  \<^verbatim>\<open>setTimeout(callback, 2000)\<close>: the closure keeps the id of the created row and the
  style of the request.
\<close>

record Timer =
  timer_jobId :: string
  timer_style :: string
  timer_delay :: nat

text \<open>\<^verbatim>\<open>if (productId)\<close>: an absent and an empty string are both falsy.\<close>

definition requestedProduct :: "string option \<Rightarrow> string option" where
  "requestedProduct pid =
     (case pid of None \<Rightarrow> None | Some p \<Rightarrow> if p = [] then None else Some p)"

definition canUseProduct :: "User \<Rightarrow> Product \<Rightarrow> bool" where
  "canUseProduct u product = (user_role u = ADMIN \<or> user_id u = product_userId product)"

definition newGeneration ::
  "GenerateEnv \<Rightarrow> User \<Rightarrow> GenerateBody \<Rightarrow> Product option \<Rightarrow> ImageGeneration" where
  "newGeneration env u body product =
     \<lparr>gen_id = env_newId env,
      gen_prompt = body_prompt body,
      gen_style = body_style body,
      gen_format = (case body_format body of None \<Rightarrow> ''PNG'' | Some f \<Rightarrow> f),
      gen_status = PENDING,
      gen_userId = user_id u,
      gen_productId = map_option product_id product,
      gen_imageUrl = None,
      gen_errorMessage = None,
      gen_createdAt = env_now env,
      gen_completedAt = None\<rparr>"

definition summaryOf :: "ImageGeneration \<Rightarrow> Product option \<Rightarrow> GenerationSummary" where
  "summaryOf g product =
     \<lparr>summary_id = gen_id g, summary_prompt = gen_prompt g, summary_style = gen_style g,
      summary_format = gen_format g, summary_status = gen_status g,
      summary_createdAt = gen_createdAt g,
      summary_product = map_option (\<lambda>p. (product_id p, product_name p)) product\<rparr>"

text \<open>
  The second half of \<^verbatim>\<open>generateImage\<close>, from \<^verbatim>\<open>prisma.imageGeneration.create\<close> on: insert
  the row in state \<^verbatim>\<open>PENDING\<close>, arm the timer, answer 202; a throwing insert is caught
  and answered 500.
\<close>

definition createGeneration ::
  "GenerateEnv \<Rightarrow> User \<Rightarrow> GenerateBody \<Rightarrow> Product option \<Rightarrow> Database
     \<Rightarrow> Response \<times> Database \<times> Timer list" where
  "createGeneration env u body product db =
     (let row = newGeneration env u body product in
      case imageGeneration_create (env_createThrows env) db row of
        Inl _ \<Rightarrow>
          (failure 500 ''Internal server error while starting image generation''
             ''INTERNAL_ERROR'', db, [])
      | Inr db' \<Rightarrow>
          (success 202 ''Image generation started successfully''
             (GenerationStarted (summaryOf row product)),
           db',
           [\<lparr>timer_jobId = gen_id row, timer_style = body_style body, timer_delay = 2000\<rparr>]))"

definition generateImage ::
  "GenerateEnv \<Rightarrow> User option \<Rightarrow> GenerateBody \<Rightarrow> Database
     \<Rightarrow> Response \<times> Database \<times> Timer list" where
  "generateImage env user body db =
     (case user of
        None \<Rightarrow> (failure 401 ''Authentication required'' ''NOT_AUTHENTICATED'', db, [])
      | Some u \<Rightarrow>
          (case requestedProduct (body_productId body) of
             None \<Rightarrow> createGeneration env u body None db
           | Some pid \<Rightarrow>
               (case product_findUnique (env_findThrows env) db pid of
                  Inl _ \<Rightarrow>
                    (failure 500 ''Internal server error while starting image generation''
                       ''INTERNAL_ERROR'', db, [])
                | Inr None \<Rightarrow> (failure 404 ''Product not found'' ''PRODUCT_NOT_FOUND'', db, [])
                | Inr (Some product) \<Rightarrow>
                    if \<not> canUseProduct u product
                    then (failure 403 ''You can only generate images for your own products''
                            ''INSUFFICIENT_PERMISSIONS'', db, [])
                    else createGeneration env u body (Some product) db)))"

subsection \<open>The route\<close>

text \<open>
  \<^verbatim>\<open>validateRequest(schema)\<close> answers 400 when the schema reports an error and otherwise
  replaces the body by the validated value. The verdict of the Joi schema is the
  parameter \<open>schema\<close>.
\<close>

definition validateRequest :: "('raw \<Rightarrow> string list + 'body) \<Rightarrow> 'raw \<Rightarrow> Response + 'body" where
  "validateRequest schema raw =
     (case schema raw of
        Inl details \<Rightarrow> Inl (failure 400 ''Validation failed'' ''VALIDATION_ERROR'')
      | Inr v \<Rightarrow> Inr v)"

text \<open>
  A middleware answers by itself or calls \<^verbatim>\<open>next\<close>.
\<close>

datatype 'a Middleware = Respond Response | Next 'a

text \<open>
  \<^verbatim>\<open>rateLimit({windowMs, max, message})\<close> counts the requests of one client address
  within the window; a request that takes the count above \<^verbatim>\<open>max\<close> is answered 429 with
  the configured message. \<open>hits\<close> is the number of earlier requests of the same address
  in the running window.
\<close>

definition rateLimit :: "nat \<Rightarrow> string \<Rightarrow> nat \<Rightarrow> unit Middleware" where
  "rateLimit limit message hits =
     (if limit < hits + 1 then Respond (failure 429 message ''RATE_LIMIT_EXCEEDED'')
      else Next ())"

definition imageOperationsLimit :: "nat \<Rightarrow> unit Middleware" where
  "imageOperationsLimit = rateLimit 50 ''Too many image requests, please try again later''"



section \<open>Deferred processing\<close>

text \<open>
  \<^verbatim>\<open>encodeURIComponent\<close> on the UTF-8 bytes of a string: letters, digits and
  \<^verbatim>\<open>- _ . ! ~ * ' ( )\<close> stay, every other byte becomes \<^verbatim>\<open>%XX\<close>.
\<close>

definition unreserved :: "char \<Rightarrow> bool" where
  "unreserved c \<longleftrightarrow>
     c \<in> set (''ABCDEFGHIJKLMNOPQRSTUVWXYZabcdefghijklmnopqrstuvwxyz0123456789'' @
              [CHR ''-'', CHR ''_'', CHR ''.'', CHR ''!'', CHR ''~'', CHR ''*'', CHR 0x27,
               CHR ''('', CHR '')''])"

definition hexDigit :: "nat \<Rightarrow> char" where
  "hexDigit n = ''0123456789ABCDEF'' ! (n mod 16)"

definition percentEncode :: "char \<Rightarrow> string" where
  "percentEncode c = [CHR ''%'', hexDigit (of_char c div 16), hexDigit (of_char c mod 16)]"

definition encodeURIComponent :: "string \<Rightarrow> string" where
  "encodeURIComponent s = concat (map (\<lambda>c. if unreserved c then [c] else percentEncode c) s)"

text \<open>
  The timer's callback. It writes \<^verbatim>\<open>COMPLETED\<close>, the placeholder URL and
  \<^verbatim>\<open>completedAt\<close>; when that update throws, the \<^verbatim>\<open>catch\<close> writes \<^verbatim>\<open>FAILED\<close> and the
  error message; when this second update throws as well the rejection is unhandled and
  nothing is written. The callback has no response to give: its only result is the
  database.
\<close>

record CallbackEnv =
  cb_updateThrows :: bool
  cb_fallbackThrows :: bool
  cb_now :: nat

definition completedPatch :: "string \<Rightarrow> nat \<Rightarrow> GenerationPatch" where
  "completedPatch url now =
     \<lparr>patch_status = Some COMPLETED, patch_imageUrl = Some url, patch_errorMessage = None,
      patch_completedAt = Some now\<rparr>"

definition failedPatch :: GenerationPatch where
  "failedPatch =
     \<lparr>patch_status = Some FAILED, patch_imageUrl = None,
      patch_errorMessage = Some ''Image generation failed'', patch_completedAt = None\<rparr>"

definition generationCallback :: "CallbackEnv \<Rightarrow> Timer \<Rightarrow> Database \<Rightarrow> Database" where
  "generationCallback env t db =
     (let mockImageUrl =
            ''https://via.placeholder.com/512x512/4F46E5/FFFFFF?text='' @
            encodeURIComponent (timer_style t)
      in case imageGeneration_update (cb_updateThrows env) db (timer_jobId t)
                (completedPatch mockImageUrl (cb_now env)) of
           Inr db' \<Rightarrow> db'
         | Inl _ \<Rightarrow>
             (case imageGeneration_update (cb_fallbackThrows env) db (timer_jobId t) failedPatch of
                Inr db' \<Rightarrow> db'
              | Inl _ \<Rightarrow> db))"

abbreviation placeholderUrl :: "Timer \<Rightarrow> string" where
  "placeholderUrl t \<equiv>
     ''https://via.placeholder.com/512x512/4F46E5/FFFFFF?text='' @
     encodeURIComponent (timer_style t)"

section \<open>Product images\<close>

text \<open>
  Fields of a multipart or JSON body are arbitrary JavaScript values; \<^verbatim>\<open>if (isPrimary)\<close>
  and \<^verbatim>\<open>Boolean(isPrimary)\<close> both read the truthiness of the value (numbers are
  modelled as integers). The destructuring default \<^verbatim>\<open>isPrimary = false\<close> replaces an
  undefined field, which is falsy as well.
\<close>

datatype JsValue =
    JsUndefined | JsNull | JsBool bool | JsNumber int | JsString string
  | JsObject "(string \<times> JsValue) list"

fun truthy :: "JsValue \<Rightarrow> bool" where
  "truthy JsUndefined = False"
| "truthy JsNull = False"
| "truthy (JsBool b) = b"
| "truthy (JsNumber n) = (n \<noteq> 0)"
| "truthy (JsString s) = (s \<noteq> [])"
| "truthy (JsObject members) = True"

record UploadedFile =
  file_originalname :: string
  file_mimetype :: string
  file_buffer :: string
  file_size :: nat

record UploadBody =
  upload_altText :: "string option"
  upload_isPrimary :: JsValue

text \<open>
  The environment of one upload: the results of \<^verbatim>\<open>sharp\<close> (the processed buffer, or
  nothing when it throws) and of the Cloudinary upload (the URL, or nothing when the
  promise is rejected), the text of \<^verbatim>\<open>Date.now()\<close> and of the random suffix, whether
  each Prisma call throws, and the id and instant of the new row.
\<close>

record UploadEnv =
  up_findThrows :: bool
  up_sharp :: "string \<Rightarrow> string option"
  up_stamp :: string
  up_random :: string
  up_cloudinary :: "string \<Rightarrow> string \<Rightarrow> string \<Rightarrow> string option"
  up_updateManyThrows :: bool
  up_createThrows :: bool
  up_newId :: string
  up_now :: nat

text \<open>
  \<^verbatim>\<open>updateMany({where: {productId, isPrimary: true}, data: {isPrimary: false}})\<close>, the
  one use of \<^verbatim>\<open>updateMany\<close> on this table.
\<close>

definition productImage_updateMany :: "bool \<Rightarrow> Database \<Rightarrow> string \<Rightarrow> Thrown + Database" where
  "productImage_updateMany fault db pid =
     (if fault then Inl DatabaseFailure
      else Inr (db\<lparr>productImages :=
                  map (\<lambda>i. if image_productId i = pid \<and> image_isPrimary i
                            then i\<lparr>image_isPrimary := False\<rparr> else i)
                      (productImages db)\<rparr>))"

definition productImage_create :: "bool \<Rightarrow> Database \<Rightarrow> ProductImage \<Rightarrow> Thrown + Database" where
  "productImage_create fault db row =
     (if fault then Inl DatabaseFailure
      else if image_id row \<in> image_id ` set (productImages db) then Inl UniqueConstraint
      else Inr (db\<lparr>productImages := productImages db @ [row]\<rparr>))"

definition productImage_findUnique ::
  "bool \<Rightarrow> Database \<Rightarrow> string \<Rightarrow> Thrown + ProductImage option" where
  "productImage_findUnique fault db iid =
     (if fault then Inl DatabaseFailure
      else Inr (find (\<lambda>i. image_id i = iid) (productImages db)))"

definition productImage_delete :: "bool \<Rightarrow> Database \<Rightarrow> string \<Rightarrow> Thrown + Database" where
  "productImage_delete fault db iid =
     (if fault then Inl DatabaseFailure
      else if iid \<notin> image_id ` set (productImages db) then Inl RecordNotFound
      else Inr (db\<lparr>productImages := filter (\<lambda>i. image_id i \<noteq> iid) (productImages db)\<rparr>))"

definition uploadFailed :: Response where
  "uploadFailed = failure 500 ''Internal server error while uploading image'' ''INTERNAL_ERROR''"

text \<open>
  \<^verbatim>\<open>uploadProductImage\<close> awaits five calls in turn: the lookup of the product, the
  processing of the file, the upload to Cloudinary, \<^verbatim>\<open>updateMany\<close> and \<^verbatim>\<open>create\<close>. The
  two writes are not in a transaction. The handler is given in three parts, cut before
  each write. The first part reads only: it ends with an answer or with the product and
  the URL of the stored file.
\<close>

definition prepareUpload ::
  "UploadEnv \<Rightarrow> User option \<Rightarrow> string \<Rightarrow> UploadedFile option \<Rightarrow> Database
     \<Rightarrow> Response + Product \<times> string" where
  "prepareUpload env user pid file db =
     (case user of
        None \<Rightarrow> Inl (failure 401 ''Authentication required'' ''NOT_AUTHENTICATED'')
      | Some u \<Rightarrow>
          (case file of
             None \<Rightarrow> Inl (failure 400 ''No image file provided'' ''NO_FILE_PROVIDED'')
           | Some f \<Rightarrow>
               (case product_findUnique (up_findThrows env) db pid of
                  Inl _ \<Rightarrow> Inl uploadFailed
                | Inr None \<Rightarrow> Inl (failure 404 ''Product not found'' ''PRODUCT_NOT_FOUND'')
                | Inr (Some product) \<Rightarrow>
                    if \<not> canUseProduct u product
                    then Inl (failure 403 ''You can only upload images for your own products''
                                ''INSUFFICIENT_PERMISSIONS'')
                    else
                      (case up_sharp env (file_buffer f) of
                         None \<Rightarrow> Inl uploadFailed
                       | Some processedBuffer \<Rightarrow>
                           (let filename = ''product-'' @ pid @ ''-'' @ up_stamp env @ ''-'' @
                                           up_random env
                            in case up_cloudinary env processedBuffer filename
                                      ''mayalens/products'' of
                                 None \<Rightarrow> Inl uploadFailed
                               | Some imageUrl \<Rightarrow> Inr (product, imageUrl))))))"

text \<open>
  The second part: when \<^verbatim>\<open>isPrimary\<close> is truthy, \<^verbatim>\<open>updateMany\<close> clears the flag of
  every primary image of the product.
\<close>

definition demotePrimaries :: "UploadEnv \<Rightarrow> string \<Rightarrow> UploadBody \<Rightarrow> Database \<Rightarrow> Thrown + Database" where
  "demotePrimaries env pid body db =
     (if truthy (upload_isPrimary body)
      then productImage_updateMany (up_updateManyThrows env) db pid
      else Inr db)"

text \<open>The third part: \<^verbatim>\<open>create\<close> inserts the new row, and the handler answers 201.\<close>

definition newImage :: "UploadEnv \<Rightarrow> Product \<Rightarrow> string \<Rightarrow> UploadBody \<Rightarrow> string \<Rightarrow> ProductImage" where
  "newImage env product pid body imageUrl =
     \<lparr>image_id = up_newId env,
      image_productId = pid,
      image_imageUrl = imageUrl,
      image_altText =
        (case upload_altText body of
           None \<Rightarrow> product_name product @ '' product image''
         | Some a \<Rightarrow> if a = [] then product_name product @ '' product image'' else a),
      image_isPrimary = truthy (upload_isPrimary body),
      image_createdAt = up_now env\<rparr>"

definition createImage ::
  "UploadEnv \<Rightarrow> Product \<Rightarrow> string \<Rightarrow> UploadBody \<Rightarrow> string \<Rightarrow> Database \<Rightarrow> Response \<times> Database" where
  "createImage env product pid body imageUrl db =
     (case productImage_create (up_createThrows env) db
             (newImage env product pid body imageUrl) of
        Inl _ \<Rightarrow> (uploadFailed, db)
      | Inr saved \<Rightarrow>
          (success 201 ''Product image uploaded successfully''
             (ImageRecord (newImage env product pid body imageUrl) (product_name product)),
           saved))"

text \<open>
  The two writes one after the other, and the whole handler, when nothing else runs in
  between. When the insert throws, the cleared flags stay cleared.
\<close>

definition saveImage ::
  "UploadEnv \<Rightarrow> Product \<Rightarrow> string \<Rightarrow> UploadBody \<Rightarrow> string \<Rightarrow> Database \<Rightarrow> Response \<times> Database" where
  "saveImage env product pid body imageUrl db =
     (case demotePrimaries env pid body db of
        Inl _ \<Rightarrow> (uploadFailed, db)
      | Inr cleared \<Rightarrow> createImage env product pid body imageUrl cleared)"

definition uploadProductImage ::
  "UploadEnv \<Rightarrow> User option \<Rightarrow> string \<Rightarrow> UploadBody \<Rightarrow> UploadedFile option \<Rightarrow> Database
     \<Rightarrow> Response \<times> Database" where
  "uploadProductImage env user pid body file db =
     (case prepareUpload env user pid file db of
        Inl r \<Rightarrow> (r, db)
      | Inr (product, imageUrl) \<Rightarrow> saveImage env product pid body imageUrl db)"

text \<open>
  \<^verbatim>\<open>deleteProductImage\<close>. The image is read together with its product. The permission is
  \<^verbatim>\<open>req.user.role === UserRole.ADMIN || req.user.id === image.product.userId\<close>: for an
  administrator the right-hand side is not evaluated; for anybody else it reads the
  product, and throws when the image has none. The deletion of the stored file at
  Cloudinary is wrapped in its own \<^verbatim>\<open>try\<close> and its failure ignored, so it does not
  appear.
\<close>

record DeleteEnv =
  del_findThrows :: bool
  del_deleteThrows :: bool

definition deleteFailed :: Response where
  "deleteFailed = failure 500 ''Internal server error while deleting image'' ''INTERNAL_ERROR''"

definition canDeleteImage :: "User \<Rightarrow> Product option \<Rightarrow> Thrown + bool" where
  "canDeleteImage u product =
     (if user_role u = ADMIN then Inr True
      else case product of
             None \<Rightarrow> Inl TypeError
           | Some p \<Rightarrow> Inr (user_id u = product_userId p))"

definition deleteProductImage ::
  "DeleteEnv \<Rightarrow> User option \<Rightarrow> string \<Rightarrow> string \<Rightarrow> Database \<Rightarrow> Response \<times> Database" where
  "deleteProductImage env user pid iid db =
     (case user of
        None \<Rightarrow> (failure 401 ''Authentication required'' ''NOT_AUTHENTICATED'', db)
      | Some u \<Rightarrow>
          (case productImage_findUnique (del_findThrows env) db iid of
             Inl _ \<Rightarrow> (deleteFailed, db)
           | Inr None \<Rightarrow> (failure 404 ''Product image not found'' ''IMAGE_NOT_FOUND'', db)
           | Inr (Some img) \<Rightarrow>
               if image_productId img \<noteq> pid
               then (failure 404 ''Product image not found'' ''IMAGE_NOT_FOUND'', db)
               else
                 (case canDeleteImage u
                         (find (\<lambda>p. product_id p = image_productId img) (products db)) of
                    Inl _ \<Rightarrow> (deleteFailed, db)
                  | Inr canDelete \<Rightarrow>
                      if \<not> canDelete
                      then (failure 403 ''You can only delete images for your own products''
                              ''INSUFFICIENT_PERMISSIONS'', db)
                      else
                        (case productImage_delete (del_deleteThrows env) db iid of
                           Inl _ \<Rightarrow> (deleteFailed, db)
                         | Inr db' \<Rightarrow>
                             (success 200 ''Product image deleted successfully'' NoData,
                              db')))))"

subsection \<open>Cascading deletions of the other controllers\<close>

text \<open>
  Two transactions outside the image controller delete rows of its tables: the one of
  \<^verbatim>\<open>deleteProduct\<close> (the images of the product, then the product) and the one of
  \<^verbatim>\<open>deleteUser\<close> (the user's generations, the images of the user's products, the
  products). A transaction that throws is rolled back. The users table is not part of
  the model, so the last statement of the second transaction, the deletion of the user,
  does not appear.
\<close>

definition deleteProductTransaction :: "bool \<Rightarrow> string \<Rightarrow> Database \<Rightarrow> Thrown + Database" where
  "deleteProductTransaction fault pid db =
     (if fault then Inl DatabaseFailure
      else if pid \<notin> product_id ` set (products db) then Inl RecordNotFound
      else Inr (db\<lparr>productImages := filter (\<lambda>i. image_productId i \<noteq> pid) (productImages db),
                    products := filter (\<lambda>p. product_id p \<noteq> pid) (products db)\<rparr>))"

definition ownedBy :: "Database \<Rightarrow> string \<Rightarrow> ProductImage \<Rightarrow> bool" where
  "ownedBy db uid i =
     (case find (\<lambda>p. product_id p = image_productId i) (products db) of
        None \<Rightarrow> False
      | Some p \<Rightarrow> product_userId p = uid)"

definition deleteUserTransaction :: "bool \<Rightarrow> string \<Rightarrow> Database \<Rightarrow> Thrown + Database" where
  "deleteUserTransaction fault uid db =
     (if fault then Inl DatabaseFailure
      else Inr (db\<lparr>imageGenerations := filter (\<lambda>g. gen_userId g \<noteq> uid) (imageGenerations db),
                    productImages := filter (\<lambda>i. \<not> ownedBy db uid i) (productImages db),
                    products := filter (\<lambda>p. product_userId p \<noteq> uid) (products db)\<rparr>))"

section \<open>Routing\<close>

text \<open>
  The routes of the images router (\<^verbatim>\<open>routes/images\<close>, mounted at \<^verbatim>\<open>/api/images\<close>) in
  the order of their registration. A request path is the list of its non-empty segments
  below the mount point. Routers are created with Express's defaults: a literal segment
  matches without regard to case, a parameter matches any segment.
\<close>

datatype Method = GET | POST | PUT | PATCH | DELETE

datatype Segment = Lit string | Param string

datatype ImageHandler =
    UploadProductImage | GetProductImages | DeleteProductImage
  | GenerateImage | GetImageGeneration | GetUserImageGenerations

definition imageRoutes :: "(Method \<times> Segment list \<times> ImageHandler) list" where
  "imageRoutes =
     [(POST, [Lit ''products'', Param ''productId'', Lit ''upload''], UploadProductImage),
      (GET, [Lit ''products'', Param ''productId''], GetProductImages),
      (DELETE, [Lit ''products'', Param ''productId'', Param ''imageId''], DeleteProductImage),
      (POST, [Lit ''generate''], GenerateImage),
      (GET, [Lit ''generations'', Param ''id''], GetImageGeneration),
      (GET, [Lit ''generations''], GetUserImageGenerations)]"

definition lowerChar :: "char \<Rightarrow> char" where
  "lowerChar c =
     (case map_of (zip ''ABCDEFGHIJKLMNOPQRSTUVWXYZ'' ''abcdefghijklmnopqrstuvwxyz'') c of
        None \<Rightarrow> c
      | Some l \<Rightarrow> l)"

fun matchSegment :: "Segment \<Rightarrow> string \<Rightarrow> bool" where
  "matchSegment (Lit l) s = (map lowerChar l = map lowerChar s)"
| "matchSegment (Param _) s = True"

definition matchPath :: "Segment list \<Rightarrow> string list \<Rightarrow> bool" where
  "matchPath pattern path = list_all2 matchSegment pattern path"

text \<open>
  When the path of a layer matches, Express decodes the values of its parameters with
  \<^verbatim>\<open>decodeURIComponent\<close>, which throws a \<^verbatim>\<open>URIError\<close> on a malformed escape. On the
  bytes of a segment: \<^verbatim>\<open>%\<close> must be followed by two hexadecimal digits, and the escaped
  bytes from 128 on must spell well-formed UTF-8, continuation bytes being escaped as
  well.
\<close>

definition hexValue :: "char \<Rightarrow> nat option" where
  "hexValue c =
     (let n = (of_char c :: nat) in
      if 48 \<le> n \<and> n \<le> 57 then Some (n - 48)
      else if 65 \<le> n \<and> n \<le> 70 then Some (n - 55)
      else if 97 \<le> n \<and> n \<le> 102 then Some (n - 87)
      else None)"

datatype Unit = Plain char | Escaped nat

fun escapes :: "string \<Rightarrow> Unit list option" where
  "escapes [] = Some []"
| "escapes (c # cs) =
     (if c = CHR ''%'' then
        (case cs of
           h # l # rest \<Rightarrow>
             (case (hexValue h, hexValue l) of
                (Some a, Some b) \<Rightarrow> map_option ((#) (Escaped (16 * a + b))) (escapes rest)
              | _ \<Rightarrow> None)
         | _ \<Rightarrow> None)
      else map_option ((#) (Plain c)) (escapes cs))"

fun continuation :: "nat \<Rightarrow> nat \<Rightarrow> Unit \<Rightarrow> bool" where
  "continuation lo hi (Escaped b) = (lo \<le> b \<and> b \<le> hi)"
| "continuation lo hi (Plain c) = False"

fun wellFormed :: "Unit list \<Rightarrow> bool" where
  "wellFormed [] = True"
| "wellFormed (Plain c # us) = wellFormed us"
| "wellFormed (Escaped b # us) =
     (if b < 128 then wellFormed us
      else if 194 \<le> b \<and> b \<le> 223 then
        (case us of
           u1 # r \<Rightarrow> continuation 128 191 u1 \<and> wellFormed r
         | _ \<Rightarrow> False)
      else if 224 \<le> b \<and> b \<le> 239 then
        (case us of
           u1 # u2 # r \<Rightarrow>
             continuation (if b = 224 then 160 else 128) (if b = 237 then 159 else 191) u1 \<and>
             continuation 128 191 u2 \<and> wellFormed r
         | _ \<Rightarrow> False)
      else if 240 \<le> b \<and> b \<le> 244 then
        (case us of
           u1 # u2 # u3 # r \<Rightarrow>
             continuation (if b = 240 then 144 else 128) (if b = 244 then 143 else 191) u1 \<and>
             continuation 128 191 u2 \<and> continuation 128 191 u3 \<and> wellFormed r
         | _ \<Rightarrow> False)
      else False)"

fun unitChar :: "Unit \<Rightarrow> char" where
  "unitChar (Plain c) = c"
| "unitChar (Escaped b) = char_of b"

definition decodeURIComponent :: "string \<Rightarrow> string option" where
  "decodeURIComponent s =
     (case escapes s of
        None \<Rightarrow> None
      | Some us \<Rightarrow> if wellFormed us then Some (map unitChar us) else None)"

text \<open>The first parameter of a layer whose value does not decode.\<close>

fun failedParam :: "Segment list \<Rightarrow> string list \<Rightarrow> string option" where
  "failedParam (Param _ # ps) (s # ss) =
     (if decodeURIComponent s = None then Some s else failedParam ps ss)"
| "failedParam (Lit _ # ps) (s # ss) = failedParam ps ss"
| "failedParam _ _ = None"

text \<open>
  The router tries its layers in order. A layer whose path matches but whose parameters
  do not decode leaves an error behind; the first such error is kept, and from then on
  no route matches. Only after the path has matched is the method compared. At the end
  of the stack the request leaves the router, with the error if there is one.
\<close>

datatype Routed = Handler ImageHandler | NoRoute | DecodeFailed string

fun dispatch ::
  "string option \<Rightarrow> (Method \<times> Segment list \<times> ImageHandler) list \<Rightarrow> Method \<Rightarrow> string list
     \<Rightarrow> Routed" where
  "dispatch layerError [] m path =
     (case layerError of None \<Rightarrow> NoRoute | Some v \<Rightarrow> DecodeFailed v)"
| "dispatch layerError ((m', pattern, h) # layers) m path =
     (if \<not> matchPath pattern path then dispatch layerError layers m path
      else case failedParam pattern path of
             Some v \<Rightarrow>
               dispatch (case layerError of None \<Rightarrow> Some v | Some e \<Rightarrow> Some e) layers m path
           | None \<Rightarrow>
               if layerError = None \<and> m' = m then Handler h
               else dispatch layerError layers m path)"

definition findRoute :: "Method \<Rightarrow> string list \<Rightarrow> Routed" where
  "findRoute m path = dispatch None imageRoutes m path"

text \<open>
  A request no route takes reaches \<^verbatim>\<open>notFoundHandler\<close>, which passes an
  \<^verbatim>\<open>AppError\<close> with status 404 to \<^verbatim>\<open>errorHandler\<close>; a request that leaves the
  router with an error reaches \<^verbatim>\<open>errorHandler\<close> directly. The error handler derives status
  and message from the kind of the error and answers
  \<^verbatim>\<open>{success: false, error: message}\<close>.
\<close>

record JsError =
  err_name :: string
  err_code :: string
  err_message :: string

datatype Failure = AppError string nat | OtherError JsError

definition notFoundHandler :: "string \<Rightarrow> Failure" where
  "notFoundHandler originalUrl = AppError (''Route '' @ originalUrl @ '' not found'') 404"

definition errorStatus :: "Failure \<Rightarrow> nat \<times> string" where
  "errorStatus e =
     (case e of
        AppError message statusCode \<Rightarrow> (statusCode, message)
      | OtherError err \<Rightarrow>
          if err_name err = ''PrismaClientKnownRequestError'' then
            (if err_code err = ''P2002'' then (409, ''A record with this information already exists'')
             else if err_code err = ''P2025'' then (404, ''Record not found'')
             else if err_code err = ''P2003'' then (400, ''Invalid reference to related record'')
             else (400, ''Database operation failed''))
          else if err_name err = ''PrismaClientValidationError'' then (400, ''Invalid data provided'')
          else if err_name err = ''JsonWebTokenError'' then (401, ''Invalid token'')
          else if err_name err = ''TokenExpiredError'' then (401, ''Token expired'')
          else if err_name err = ''ValidationError'' then (400, err_message err)
          else if err_name err = ''MulterError'' then
            (if err_code err = ''LIMIT_FILE_SIZE'' then (413, ''File too large'')
             else if err_code err = ''LIMIT_FILE_COUNT'' then (400, ''Too many files'')
             else if err_code err = ''LIMIT_UNEXPECTED_FILE'' then (400, ''Unexpected file field'')
             else (400, ''File upload error''))
          else (500, ''Internal Server Error''))"

definition errorHandler :: "Failure \<Rightarrow> Response" where
  "errorHandler e =
     \<lparr>res_status = fst (errorStatus e), res_success = False, res_message = None,
      res_error = Some (snd (errorStatus e)), res_data = NoData\<rparr>"

definition originalUrl :: "string list \<Rightarrow> string" where
  "originalUrl path = ''/api/images'' @ concat (map (\<lambda>s. CHR ''/'' # s) path)"

definition decodeError :: "string \<Rightarrow> Failure" where
  "decodeError v =
     OtherError \<lparr>err_name = ''URIError'', err_code = [],
                 err_message = ''Failed to decode param '' @ [CHR 0x27] @ v @ [CHR 0x27]\<rparr>"

text \<open>
  A request below \<^verbatim>\<open>/api/images\<close>: the global rate limiter (its \<^verbatim>\<open>max\<close> is read from
  the process environment) answers or lets it pass; the first matching route runs its
  chain of middleware and handler (the parameter \<open>run\<close>); a request that leaves the
  router ends in the handlers above, which have no access to the database.
\<close>

definition imagesApp ::
  "unit Middleware \<Rightarrow> (ImageHandler \<Rightarrow> Database \<Rightarrow> Response \<times> Database \<times> Timer list)
     \<Rightarrow> Method \<Rightarrow> string list \<Rightarrow> Database \<Rightarrow> Response \<times> Database \<times> Timer list" where
  "imagesApp globalRateLimit run m path db =
     (case globalRateLimit of
        Respond r \<Rightarrow> (r, db, [])
      | Next _ \<Rightarrow>
          (case findRoute m path of
             Handler h \<Rightarrow> run h db
           | NoRoute \<Rightarrow> (errorHandler (notFoundHandler (originalUrl path)), db, [])
           | DecodeFailed v \<Rightarrow> (errorHandler (decodeError v), db, [])))"

section \<open>The route of the status query\<close>

text \<open>
  \<^verbatim>\<open>uuidSchema = Joi.string().uuid().required()\<close>: a string schema. It accepts a string
  that is not empty and is a UUID, and reports every value that is not a string. Joi's
  UUID pattern is the parameter \<open>isUuid\<close>.
\<close>

definition uuidSchema :: "(string \<Rightarrow> bool) \<Rightarrow> JsValue \<Rightarrow> string list + JsValue" where
  "uuidSchema isUuid v =
     (case v of
        JsUndefined \<Rightarrow> Inl [CHR 0x22 # ''value'' @ CHR 0x22 # '' is required'']
      | JsString s \<Rightarrow>
          if s = [] then Inl [''ID is required'']
          else if isUuid s then Inr (JsString s)
          else Inl [''Must be a valid UUID'']
      | _ \<Rightarrow> Inl [CHR 0x22 # ''value'' @ CHR 0x22 # '' must be a string''])"

text \<open>\<^verbatim>\<open>value[key]\<close>, when it is a string.\<close>

definition propertyString :: "JsValue \<Rightarrow> string \<Rightarrow> string option" where
  "propertyString v key =
     (case v of
        JsObject members \<Rightarrow>
          (case map_of members key of Some (JsString s) \<Rightarrow> Some s | _ \<Rightarrow> None)
      | _ \<Rightarrow> None)"

text \<open>
  \<^verbatim>\<open>router.get('/generations/:id', imageOperationsLimit, requireAuthenticatedUser,
  validateRequest(uuidSchema, 'params'), getImageGeneration)\<close>. The validation is given
  \<^verbatim>\<open>req.params\<close>, the object \<^verbatim>\<open>{id: ...}\<close>, and puts the validated value in its place;
  the handler then reads \<^verbatim>\<open>req.params.id\<close>. A lookup with an undefined id throws.
\<close>

definition getGenerationById ::
  "(string \<Rightarrow> bool) \<Rightarrow> nat \<Rightarrow> User Middleware \<Rightarrow> bool \<Rightarrow> string \<Rightarrow> Database
     \<Rightarrow> Response \<times> Database" where
  "getGenerationById isUuid hits auth fault jid db =
     (case imageOperationsLimit hits of
        Respond r \<Rightarrow> (r, db)
      | Next _ \<Rightarrow>
          (case auth of
             Respond r \<Rightarrow> (r, db)
           | Next u \<Rightarrow>
               (case validateRequest (uuidSchema isUuid) (JsObject [(''id'', JsString jid)]) of
                  Inl r \<Rightarrow> (r, db)
                | Inr params \<Rightarrow>
                    (case propertyString params ''id'' of
                       Some i \<Rightarrow> getImageGeneration fault (Some u) i db
                     | None \<Rightarrow> getImageGeneration True (Some u) [] db))))"

section \<open>The running system\<close>

text \<open>
  An upload that has been started and not yet answered: it waits for its
  \<^verbatim>\<open>updateMany\<close> or for its \<^verbatim>\<open>create\<close>.
\<close>

datatype UploadPhase = AwaitUpdateMany | AwaitCreate

record PendingUpload =
  pending_phase :: UploadPhase
  pending_env :: UploadEnv
  pending_product :: Product
  pending_productId :: string
  pending_body :: UploadBody
  pending_imageUrl :: string

text \<open>
  The state of the server: the database, the timers that are armed, the uploads under
  way, and two history variables: the ids the database has given to generation rows (its
  generator never repeats one) and, for each job id, how often the callback of that job
  has run.
\<close>

record System =
  sys_db :: Database
  sys_timers :: "Timer list"
  sys_uploads :: "PendingUpload list"
  sys_issued :: "string set"
  sys_runs :: "string \<Rightarrow> nat"

definition initial :: System where
  "initial = \<lparr>sys_db = emptyDatabase, sys_timers = [], sys_uploads = [], sys_issued = {},
              sys_runs = (\<lambda>_. 0)\<rparr>"

text \<open>
  One step of the system. A handler of the image controller serves a request, with any
  caller and any input, which covers whatever the middleware lets through; an armed
  timer fires; one of the two cascading transactions commits; the product controller
  rewrites the products table; the process restarts and loses its timers and the
  requests under way. The two list handlers of the controller only read.

  An upload takes three steps, one for each part of the handler, and any other step may
  come between them. The other handlers and the callback of a timer are one step each.
\<close>

inductive step :: "System \<Rightarrow> System \<Rightarrow> bool" where
  Submit:
    "env_newId env \<notin> sys_issued s \<Longrightarrow>
     generateImage env user body (sys_db s) = (res, db', ts) \<Longrightarrow>
     step s (s\<lparr>sys_db := db', sys_timers := sys_timers s @ ts,
                sys_issued := insert (env_newId env) (sys_issued s)\<rparr>)"
| Fire:
    "t \<in> set (sys_timers s) \<Longrightarrow>
     step s (s\<lparr>sys_db := generationCallback env t (sys_db s),
                sys_timers := remove1 t (sys_timers s),
                sys_runs := (sys_runs s)(timer_jobId t := Suc (sys_runs s (timer_jobId t)))\<rparr>)"
| Query:
    "step s (s\<lparr>sys_db := snd (getImageGeneration fault user jid (sys_db s))\<rparr>)"
| UploadBegin:
    "prepareUpload uenv user pid attachment (sys_db s) = Inr (product, imageUrl) \<Longrightarrow>
     step s (s\<lparr>sys_uploads := sys_uploads s @
                  [\<lparr>pending_phase = AwaitUpdateMany, pending_env = uenv,
                    pending_product = product, pending_productId = pid, pending_body = ubody,
                    pending_imageUrl = imageUrl\<rparr>]\<rparr>)"
| UploadUpdateMany:
    "u \<in> set (sys_uploads s) \<Longrightarrow> pending_phase u = AwaitUpdateMany \<Longrightarrow>
     demotePrimaries (pending_env u) (pending_productId u) (pending_body u) (sys_db s) = Inr db' \<Longrightarrow>
     step s (s\<lparr>sys_db := db',
                sys_uploads := remove1 u (sys_uploads s) @ [u\<lparr>pending_phase := AwaitCreate\<rparr>]\<rparr>)"
| UploadUpdateManyThrows:
    "u \<in> set (sys_uploads s) \<Longrightarrow> pending_phase u = AwaitUpdateMany \<Longrightarrow>
     demotePrimaries (pending_env u) (pending_productId u) (pending_body u) (sys_db s) = Inl e \<Longrightarrow>
     step s (s\<lparr>sys_uploads := remove1 u (sys_uploads s)\<rparr>)"
| UploadCreate:
    "u \<in> set (sys_uploads s) \<Longrightarrow> pending_phase u = AwaitCreate \<Longrightarrow>
     step s (s\<lparr>sys_db := snd (createImage (pending_env u) (pending_product u) (pending_productId u)
                              (pending_body u) (pending_imageUrl u) (sys_db s)),
                sys_uploads := remove1 u (sys_uploads s)\<rparr>)"
| DeleteImage:
    "step s (s\<lparr>sys_db := snd (deleteProductImage denv user pid iid (sys_db s))\<rparr>)"
| DeleteProduct:
    "deleteProductTransaction fault pid (sys_db s) = Inr db' \<Longrightarrow> step s (s\<lparr>sys_db := db'\<rparr>)"
| DeleteUser:
    "deleteUserTransaction fault uid (sys_db s) = Inr db' \<Longrightarrow> step s (s\<lparr>sys_db := db'\<rparr>)"
| Products:
    "step s (s\<lparr>sys_db := (sys_db s)\<lparr>products := ps\<rparr>\<rparr>)"
| Restart:
    "step s (s\<lparr>sys_timers := [], sys_uploads := []\<rparr>)"

inductive reachable :: "System \<Rightarrow> bool" where
  Start: "reachable initial"
| Step: "reachable s \<Longrightarrow> step s s' \<Longrightarrow> reachable s'"

section \<open>Invariants\<close>

text \<open>
  What the state of a job says about its result fields: a pending job has neither a
  result nor an error, a completed job a result and no error, a failed job the error
  message of the callback and no result. The controller never writes \<^verbatim>\<open>RUNNING\<close>.
\<close>

definition consistent :: "ImageGeneration \<Rightarrow> bool" where
  "consistent g =
     (case gen_status g of
        PENDING \<Rightarrow> gen_imageUrl g = None \<and> gen_errorMessage g = None
      | RUNNING \<Rightarrow> False
      | COMPLETED \<Rightarrow> gen_imageUrl g \<noteq> None \<and> gen_errorMessage g = None
      | FAILED \<Rightarrow> gen_imageUrl g = None \<and> gen_errorMessage g = Some ''Image generation failed'')"

definition jobIds :: "System \<Rightarrow> string set" where
  "jobIds s = gen_id ` set (imageGenerations (sys_db s))"

definition timerIds :: "System \<Rightarrow> string set" where
  "timerIds s = timer_jobId ` set (sys_timers s)"

definition jobs_inv :: "System \<Rightarrow> bool" where
  "jobs_inv s \<longleftrightarrow>
     distinct (map gen_id (imageGenerations (sys_db s))) \<and>
     distinct (map timer_jobId (sys_timers s)) \<and>
     jobIds s \<subseteq> sys_issued s \<and>
     timerIds s \<subseteq> sys_issued s \<and>
     (\<forall>g \<in> set (imageGenerations (sys_db s)).
        consistent g \<and> (gen_id g \<in> timerIds s \<longrightarrow> gen_status g = PENDING)) \<and>
     (\<forall>j. sys_runs s j \<le> 1 \<and> (0 < sys_runs s j \<longrightarrow> j \<in> sys_issued s \<and> j \<notin> timerIds s))"

text \<open>The primary images of a product.\<close>

definition primaries :: "Database \<Rightarrow> string \<Rightarrow> ProductImage list" where
  "primaries db pid =
     filter (\<lambda>i. image_productId i = pid \<and> image_isPrimary i) (productImages db)"

definition primary_inv :: "Database \<Rightarrow> bool" where
  "primary_inv db \<longleftrightarrow> (\<forall>pid. length (primaries db pid) \<le> 1)"

text \<open>
  The edges the specification allows for the state of a job, and the edges the
  controller takes.
\<close>

definition specEdge :: "GenerationStatus \<Rightarrow> GenerationStatus \<Rightarrow> bool" where
  "specEdge a b \<longleftrightarrow>
     (a, b) \<in> {(PENDING, RUNNING), (RUNNING, PENDING), (RUNNING, COMPLETED),
               (RUNNING, FAILED), (PENDING, FAILED)}"

definition codeEdge :: "GenerationStatus \<Rightarrow> GenerationStatus \<Rightarrow> bool" where
  "codeEdge a b \<longleftrightarrow> (a, b) \<in> {(PENDING, COMPLETED), (PENDING, FAILED)}"







section \<open>Example data\<close>

text \<open>Identifiers as the database issues them.\<close>

abbreviation job1Id :: string where
  "job1Id \<equiv> ''3f2504e0-4f89-41d3-9a0c-0305e82c3301''"

abbreviation shoeId :: string where
  "shoeId \<equiv> ''7c9e6679-7425-40de-944b-e07fc1f90ae7''"

abbreviation img1Id :: string where
  "img1Id \<equiv> ''1b4e28ba-2fa1-41d2-883f-0016d3cca427''"

abbreviation img2Id :: string where
  "img2Id \<equiv> ''6fa459ea-ee8a-4ca4-894e-db77e160355e''"

definition alice :: User where
  "alice = \<lparr>user_id = ''u-alice'', user_role = TEAM_MEMBER\<rparr>"

definition bob :: User where
  "bob = \<lparr>user_id = ''u-bob'', user_role = TEAM_MEMBER\<rparr>"

definition root :: User where
  "root = \<lparr>user_id = ''u-root'', user_role = ADMIN\<rparr>"

definition job1 :: ImageGeneration where
  "job1 = \<lparr>gen_id = job1Id, gen_prompt = ''a red shoe on marble'', gen_style = ''REALISTIC'',
            gen_format = ''SQUARE'', gen_status = PENDING, gen_userId = ''u-alice'',
            gen_productId = None, gen_imageUrl = None, gen_errorMessage = None,
            gen_createdAt = 1000, gen_completedAt = None\<rparr>"

definition db1 :: Database where
  "db1 = emptyDatabase\<lparr>imageGenerations := [job1]\<rparr>"

text \<open>The submission that creates \<open>job1\<close>, and its timer.\<close>

definition body1 :: GenerateBody where
  "body1 = \<lparr>body_prompt = ''a red shoe on marble'', body_style = ''REALISTIC'',
             body_format = Some ''SQUARE'', body_productId = None\<rparr>"

definition env1 :: GenerateEnv where
  "env1 = \<lparr>env_findThrows = False, env_createThrows = False, env_newId = job1Id,
            env_now = 1000\<rparr>"

definition timer1 :: Timer where
  "timer1 = \<lparr>timer_jobId = job1Id, timer_style = ''REALISTIC'', timer_delay = 2000\<rparr>"

definition sysPending :: System where
  "sysPending = \<lparr>sys_db = db1, sys_timers = [timer1], sys_uploads = [], sys_issued = {job1Id},
                  sys_runs = (\<lambda>_. 0)\<rparr>"

text \<open>The callback runs without a fault: the job is completed.\<close>

definition cbOk :: CallbackEnv where
  "cbOk = \<lparr>cb_updateThrows = False, cb_fallbackThrows = False, cb_now = 3000\<rparr>"

definition job1Completed :: ImageGeneration where
  "job1Completed =
     job1\<lparr>gen_status := COMPLETED,
          gen_imageUrl :=
            Some ''https://via.placeholder.com/512x512/4F46E5/FFFFFF?text=REALISTIC'',
          gen_completedAt := Some 3000\<rparr>"

definition sysCompleted :: System where
  "sysCompleted = \<lparr>sys_db = emptyDatabase\<lparr>imageGenerations := [job1Completed]\<rparr>,
                    sys_timers = [], sys_uploads = [], sys_issued = {job1Id},
                    sys_runs = (\<lambda>_. 0)(job1Id := Suc 0)\<rparr>"

text \<open>The first update of the callback throws: the job is failed.\<close>

definition cbFirstThrows :: CallbackEnv where
  "cbFirstThrows = \<lparr>cb_updateThrows = True, cb_fallbackThrows = False, cb_now = 3000\<rparr>"

definition job1Failed :: ImageGeneration where
  "job1Failed =
     job1\<lparr>gen_status := FAILED, gen_errorMessage := Some ''Image generation failed''\<rparr>"

definition dbFailed :: Database where
  "dbFailed = emptyDatabase\<lparr>imageGenerations := [job1Failed]\<rparr>"

definition sysFailed :: System where
  "sysFailed = \<lparr>sys_db = dbFailed, sys_timers = [], sys_uploads = [], sys_issued = {job1Id},
                 sys_runs = (\<lambda>_. 0)(job1Id := Suc 0)\<rparr>"

text \<open>Both updates of the callback throw: the job stays as it is.\<close>

definition cbBothThrow :: CallbackEnv where
  "cbBothThrow = \<lparr>cb_updateThrows = True, cb_fallbackThrows = True, cb_now = 3000\<rparr>"

text \<open>A product of alice, and submissions that name it.\<close>

definition shoe :: Product where
  "shoe = \<lparr>product_id = shoeId, product_userId = ''u-alice'', product_name = ''Red shoe''\<rparr>"

definition dbShoe :: Database where
  "dbShoe = emptyDatabase\<lparr>products := [shoe]\<rparr>"

definition bodyShoe :: GenerateBody where
  "bodyShoe = body1\<lparr>body_productId := Some shoeId\<rparr>"


definition primaryBody :: UploadBody where
  "primaryBody = \<lparr>upload_altText = None, upload_isPrimary = JsString ''true''\<rparr>"

definition uploadEnv1 :: UploadEnv where
  "uploadEnv1 =
     \<lparr>up_findThrows = False, up_sharp = (\<lambda>buffer. Some buffer),
      up_stamp = ''1700000000000'', up_random = ''k3x9q'',
      up_cloudinary = (\<lambda>buffer filename folder. Some (''https://cdn/'' @ folder @ ''/'' @ filename)),
      up_updateManyThrows = False, up_createThrows = False, up_newId = img1Id,
      up_now = 2000\<rparr>"

definition uploadEnv2 :: UploadEnv where
  "uploadEnv2 = uploadEnv1\<lparr>up_stamp := ''1700000000500'', up_random := ''p7m2w'',
                           up_newId := img2Id, up_now := 2500\<rparr>"



text \<open>
  The two uploads overlap: both are started, both run their \<^verbatim>\<open>updateMany\<close>, then both
  run their \<^verbatim>\<open>create\<close>.
\<close>

definition pending1 :: PendingUpload where
  "pending1 = \<lparr>pending_phase = AwaitUpdateMany, pending_env = uploadEnv1,
                pending_product = shoe, pending_productId = shoeId,
                pending_body = primaryBody,
                pending_imageUrl =
                  ''https://cdn/mayalens/products/product-'' @ shoeId @ ''-1700000000000-k3x9q''\<rparr>"

definition pending2 :: PendingUpload where
  "pending2 = pending1\<lparr>pending_env := uploadEnv2,
                       pending_imageUrl :=
                         ''https://cdn/mayalens/products/product-'' @ shoeId @
                         ''-1700000000500-p7m2w''\<rparr>"



section \<open>The submission and the callback, case by case\<close>

lemma createGeneration_cases:
  assumes "createGeneration env u body product db = (res, db', ts)"
  shows "(db' = db \<and> ts = [] \<and> res_status res = 500) \<or>
         (env_newId env \<notin> gen_id ` set (imageGenerations db) \<and>
          db' = db\<lparr>imageGenerations := imageGenerations db @ [newGeneration env u body product]\<rparr> \<and>
          ts = [\<lparr>timer_jobId = env_newId env, timer_style = body_style body, timer_delay = 2000\<rparr>] \<and>
          res = success 202 ''Image generation started successfully''
                  (GenerationStarted (summaryOf (newGeneration env u body product) product)))"
  using assms
  by (auto simp: createGeneration_def imageGeneration_create_def Let_def failure_def newGeneration_def
           split: if_splits)

lemma generateImage_cases:
  assumes "generateImage env user body db = (res, db', ts)"
  shows "(db' = db \<and> ts = [] \<and> res_status res \<in> {401, 403, 404, 500}) \<or>
         (\<exists>u product. user = Some u \<and>
            env_newId env \<notin> gen_id ` set (imageGenerations db) \<and>
            db' = db\<lparr>imageGenerations := imageGenerations db @ [newGeneration env u body product]\<rparr> \<and>
            ts = [\<lparr>timer_jobId = env_newId env, timer_style = body_style body, timer_delay = 2000\<rparr>] \<and>
            res = success 202 ''Image generation started successfully''
                  (GenerationStarted (summaryOf (newGeneration env u body product) product)))"
  using assms
  by (auto simp: generateImage_def failure_def split: option.splits sum.splits if_splits
           dest!: createGeneration_cases)

lemma applyPatch_id [simp]: "gen_id (applyPatch p g) = gen_id g"
  by (simp add: applyPatch_def)

lemma generationCallback_cases:
  "generationCallback env t db = db \<or>
   (\<exists>p. (p = failedPatch \<or> (\<exists>url now. p = completedPatch url now)) \<and>
        generationCallback env t db =
          db\<lparr>imageGenerations :=
               map (\<lambda>g. if gen_id g = timer_jobId t then applyPatch p g else g)
                   (imageGenerations db)\<rparr>)"
  by (auto simp: generationCallback_def imageGeneration_update_def Let_def split: sum.splits if_splits)

lemma consistent_completed:
  "consistent g \<Longrightarrow> gen_status g = PENDING \<Longrightarrow> consistent (applyPatch (completedPatch url now) g)"
  by (simp add: consistent_def applyPatch_def completedPatch_def)

lemma consistent_failed:
  "consistent g \<Longrightarrow> gen_status g = PENDING \<Longrightarrow> consistent (applyPatch failedPatch g)"
  by (simp add: consistent_def applyPatch_def failedPatch_def)

lemma consistent_new: "consistent (newGeneration env u body product)"
  by (simp add: consistent_def newGeneration_def)

lemma map_patch_ids:
  "map gen_id (map (\<lambda>g. if gen_id g = j then applyPatch p g else g) gs) = map gen_id gs"
  by (induction gs) auto

lemma timerIds_remove1:
  "distinct (map timer_jobId ts) \<Longrightarrow> t \<in> set ts \<Longrightarrow>
   timer_jobId ` set (remove1 t ts) = timer_jobId ` set ts - {timer_jobId t}"
  by (induction ts) (auto simp: image_iff)

lemma distinct_remove1_map:
  "distinct (map f ts) \<Longrightarrow> distinct (map f (remove1 t ts))"
  by (induction ts) (auto simp: image_iff dest: notin_set_remove1)

lemma jobs_invI:
  assumes "distinct (map gen_id (imageGenerations (sys_db s)))"
    and "distinct (map timer_jobId (sys_timers s))"
    and "jobIds s \<subseteq> sys_issued s"
    and "timerIds s \<subseteq> sys_issued s"
    and "\<And>g. g \<in> set (imageGenerations (sys_db s)) \<Longrightarrow> consistent g"
    and "\<And>g. g \<in> set (imageGenerations (sys_db s)) \<Longrightarrow> gen_id g \<in> timerIds s \<Longrightarrow> gen_status g = PENDING"
    and "\<And>j. sys_runs s j \<le> 1"
    and "\<And>j. 0 < sys_runs s j \<Longrightarrow> j \<in> sys_issued s"
    and "\<And>j. 0 < sys_runs s j \<Longrightarrow> j \<notin> timerIds s"
  shows "jobs_inv s"
  using assms unfolding jobs_inv_def by blast

lemma jobs_invD:
  assumes "jobs_inv s"
  shows "distinct (map gen_id (imageGenerations (sys_db s)))"
    and "distinct (map timer_jobId (sys_timers s))"
    and "jobIds s \<subseteq> sys_issued s"
    and "timerIds s \<subseteq> sys_issued s"
    and "\<And>g. g \<in> set (imageGenerations (sys_db s)) \<Longrightarrow> consistent g"
    and "\<And>g. g \<in> set (imageGenerations (sys_db s)) \<Longrightarrow> gen_id g \<in> timerIds s \<Longrightarrow> gen_status g = PENDING"
    and "\<And>j. sys_runs s j \<le> 1"
    and "\<And>j. 0 < sys_runs s j \<Longrightarrow> j \<in> sys_issued s"
    and "\<And>j. 0 < sys_runs s j \<Longrightarrow> j \<notin> timerIds s"
  using assms unfolding jobs_inv_def by blast+

lemma jobs_inv_fire:
  assumes inv: "jobs_inv s" and t: "t \<in> set (sys_timers s)"
  shows "jobs_inv (s\<lparr>sys_db := generationCallback env t (sys_db s),
                sys_timers := remove1 t (sys_timers s),
                sys_runs := (sys_runs s)(timer_jobId t := Suc (sys_runs s (timer_jobId t)))\<rparr>)"
    (is "jobs_inv ?s'")
proof -
  note D = jobs_invD [OF inv]
  have ids: "timerIds ?s' = timerIds s - {timer_jobId t}"
    using timerIds_remove1 [OF D(2) t] by (simp add: timerIds_def)
  have tin: "timer_jobId t \<in> timerIds s" using t by (auto simp: timerIds_def)
  have runs0: "sys_runs s (timer_jobId t) = 0"
    using D(9) [of "timer_jobId t"] tin by auto
  have tiss: "timer_jobId t \<in> sys_issued s" using tin D(4) by auto
  obtain f where gens: "imageGenerations (sys_db ?s') = map f (imageGenerations (sys_db s))"
    and fid: "\<And>g. gen_id (f g) = gen_id g"
    and fother: "\<And>g. gen_id g \<noteq> timer_jobId t \<Longrightarrow> f g = g"
    and fcons: "\<And>g. consistent g \<Longrightarrow> gen_status g = PENDING \<Longrightarrow> consistent (f g)"
  proof -
    from generationCallback_cases [of env t "sys_db s"]
    consider "generationCallback env t (sys_db s) = sys_db s"
      | p where "p = failedPatch \<or> (\<exists>url now. p = completedPatch url now)"
          "generationCallback env t (sys_db s) =
            (sys_db s)\<lparr>imageGenerations :=
               map (\<lambda>g. if gen_id g = timer_jobId t then applyPatch p g else g)
                   (imageGenerations (sys_db s))\<rparr>"
      by blast
    then show thesis
    proof cases
      case 1
      show thesis by (rule that [of "\<lambda>g. g"]) (simp_all add: 1)
    next
      case (2 p)
      show thesis
      proof (rule that [of "\<lambda>g. if gen_id g = timer_jobId t then applyPatch p g else g"])
        fix g assume "consistent g" "gen_status g = PENDING"
        then show "consistent (if gen_id g = timer_jobId t then applyPatch p g else g)"
          using 2(1) consistent_completed consistent_failed by auto
      qed (simp_all add: 2(2))
    qed
  qed
  have idmap: "map gen_id (imageGenerations (sys_db ?s')) = map gen_id (imageGenerations (sys_db s))"
    unfolding gens by (simp add: fid)
  show ?thesis
  proof (rule jobs_invI)
    show "distinct (map gen_id (imageGenerations (sys_db ?s')))"
      unfolding idmap by (rule D(1))
    show "distinct (map timer_jobId (sys_timers ?s'))"
      using D(2) by (simp add: distinct_remove1_map)
    have "jobIds ?s' = jobIds s"
      unfolding jobIds_def using arg_cong [OF idmap, of set] by simp
    then show "jobIds ?s' \<subseteq> sys_issued ?s'" using D(3) by simp
    show "timerIds ?s' \<subseteq> sys_issued ?s'" unfolding ids using D(4) by auto
  next
    fix g assume "g \<in> set (imageGenerations (sys_db ?s'))"
    then obtain g0 where g0: "g0 \<in> set (imageGenerations (sys_db s))" "g = f g0"
      unfolding gens by auto
    show "consistent g"
    proof (cases "gen_id g0 = timer_jobId t")
      case True
      then have "gen_status g0 = PENDING" using D(6) [OF g0(1)] tin by simp
      then show ?thesis using fcons D(5) [OF g0(1)] g0(2) by simp
    next
      case False
      then show ?thesis using fother D(5) [OF g0(1)] g0(2) by simp
    qed
    assume "gen_id g \<in> timerIds ?s'"
    then have "gen_id g0 \<in> timerIds s" "gen_id g0 \<noteq> timer_jobId t"
      unfolding ids using g0(2) fid by auto
    then show "gen_status g = PENDING" using D(6) [OF g0(1)] fother g0(2) by simp
  next
    fix j
    show "sys_runs ?s' j \<le> 1" using D(7) [of j] runs0 by simp
    assume "0 < sys_runs ?s' j"
    then have "j = timer_jobId t \<or> 0 < sys_runs s j" by (simp split: if_splits)
    then show "j \<in> sys_issued ?s'" using tiss D(8) by auto
    from \<open>j = timer_jobId t \<or> 0 < sys_runs s j\<close> show "j \<notin> timerIds ?s'"
      unfolding ids using D(9) by auto
  qed
qed

lemma jobs_inv_filter:
  assumes inv: "jobs_inv s"
    and gens: "imageGenerations (sys_db s') = filter P (imageGenerations (sys_db s))"
    and ts: "set (sys_timers s') \<subseteq> set (sys_timers s)" "distinct (map timer_jobId (sys_timers s'))"
    and rest: "sys_issued s' = sys_issued s" "sys_runs s' = sys_runs s"
  shows "jobs_inv s'"
proof -
  note D = jobs_invD [OF inv]
  have sub: "timerIds s' \<subseteq> timerIds s" using ts(1) by (auto simp: timerIds_def)
  have jsub: "jobIds s' \<subseteq> jobIds s" by (auto simp: jobIds_def gens)
  show ?thesis
  proof (rule jobs_invI)
    show "distinct (map gen_id (imageGenerations (sys_db s')))"
      unfolding gens using D(1) by (rule distinct_map_filter)
    show "distinct (map timer_jobId (sys_timers s'))" by (rule ts(2))
    show "jobIds s' \<subseteq> sys_issued s'" using jsub D(3) rest by auto
    show "timerIds s' \<subseteq> sys_issued s'" using sub D(4) rest by auto
  next
    fix g assume g: "g \<in> set (imageGenerations (sys_db s'))"
    then have g0: "g \<in> set (imageGenerations (sys_db s))" by (simp add: gens)
    show "consistent g" by (rule D(5) [OF g0])
    assume "gen_id g \<in> timerIds s'"
    then show "gen_status g = PENDING" using D(6) [OF g0] sub by auto
  next
    fix j
    show "sys_runs s' j \<le> 1" using D(7) rest by simp
    assume "0 < sys_runs s' j"
    then have "0 < sys_runs s j" using rest by simp
    then show "j \<in> sys_issued s'" "j \<notin> timerIds s'" using D(8,9) rest sub by auto
  qed
qed

lemma jobs_inv_same_jobs:
  assumes "jobs_inv s" "imageGenerations db' = imageGenerations (sys_db s)"
  shows "jobs_inv (s\<lparr>sys_db := db'\<rparr>)"
  using assms(1)
  by (rule jobs_inv_filter [where P = "\<lambda>_. True"]) (simp_all add: assms(2) jobs_invD(2) [OF assms(1)])

lemma getImageGeneration_db [simp]: "snd (getImageGeneration fault user jid db) = db"
  by (simp add: getImageGeneration_def split: sum.splits option.splits)

lemma demotePrimaries_generations:
  "demotePrimaries env pid body db = Inr db' \<Longrightarrow> imageGenerations db' = imageGenerations db"
  by (auto simp: demotePrimaries_def productImage_updateMany_def split: if_splits)

lemma createImage_generations [simp]:
  "imageGenerations (snd (createImage env product pid body url db)) = imageGenerations db"
  by (auto simp: createImage_def productImage_create_def split: sum.splits if_splits)

lemma deleteProductImage_generations [simp]:
  "imageGenerations (snd (deleteProductImage env user pid iid db)) = imageGenerations db"
  by (auto simp: deleteProductImage_def productImage_delete_def
           split: sum.splits option.splits if_splits)

lemma deleteProductTransaction_generations:
  "deleteProductTransaction fault pid db = Inr db' \<Longrightarrow> imageGenerations db' = imageGenerations db"
  by (auto simp: deleteProductTransaction_def split: if_splits)

lemma deleteUserTransaction_generations:
  "deleteUserTransaction fault uid db = Inr db' \<Longrightarrow>
   imageGenerations db' = filter (\<lambda>g. gen_userId g \<noteq> uid) (imageGenerations db)"
  by (auto simp: deleteUserTransaction_def split: if_splits)

lemma jobs_inv_submit:
  assumes inv: "jobs_inv s" and fresh: "env_newId env \<notin> sys_issued s"
    and gen: "generateImage env user body (sys_db s) = (res, db', ts)"
  shows "jobs_inv (s\<lparr>sys_db := db', sys_timers := sys_timers s @ ts,
                sys_issued := insert (env_newId env) (sys_issued s)\<rparr>)"
    (is "jobs_inv ?s'")
proof -
  note D = jobs_invD [OF inv]
  have nrun: "sys_runs s (env_newId env) = 0" using D(8) [of "env_newId env"] fresh by auto
  have njob: "env_newId env \<notin> jobIds s" using D(3) fresh by auto
  have ntim: "env_newId env \<notin> timerIds s" using D(4) fresh by auto
  from generateImage_cases [OF gen] show ?thesis
  proof (elim disjE exE conjE)
    assume same: "db' = sys_db s" "ts = []"
    show ?thesis
    proof (rule jobs_invI)
      fix j assume "0 < sys_runs ?s' j"
      then show "j \<in> sys_issued ?s'" "j \<notin> timerIds ?s'"
        using D(8,9) same by (auto simp: timerIds_def)
    qed (use D same in \<open>auto simp: jobIds_def timerIds_def\<close>)
  next
    fix u product
    assume db': "db' = (sys_db s)\<lparr>imageGenerations :=
                    imageGenerations (sys_db s) @ [newGeneration env u body product]\<rparr>"
      and ts: "ts = [\<lparr>timer_jobId = env_newId env, timer_style = body_style body, timer_delay = 2000\<rparr>]"
    have nid: "gen_id (newGeneration env u body product) = env_newId env"
      by (simp add: newGeneration_def)
    have nst: "gen_status (newGeneration env u body product) = PENDING"
      by (simp add: newGeneration_def)
    have tids: "timerIds ?s' = insert (env_newId env) (timerIds s)"
      by (auto simp: timerIds_def ts)
    have jids: "jobIds ?s' = insert (env_newId env) (jobIds s)"
      by (auto simp: jobIds_def db' nid)
    show ?thesis
    proof (rule jobs_invI)
      show "distinct (map gen_id (imageGenerations (sys_db ?s')))"
        using D(1) njob by (simp add: db' nid jobIds_def)
      show "distinct (map timer_jobId (sys_timers ?s'))"
        using D(2) ntim by (simp add: ts timerIds_def)
      show "jobIds ?s' \<subseteq> sys_issued ?s'" unfolding jids using D(3) by auto
      show "timerIds ?s' \<subseteq> sys_issued ?s'" unfolding tids using D(4) by auto
    next
      fix g assume g: "g \<in> set (imageGenerations (sys_db ?s'))"
      then consider "g \<in> set (imageGenerations (sys_db s))" | "g = newGeneration env u body product"
        by (auto simp: db')
      then show "consistent g"
        using D(5) consistent_new by cases auto
      assume "gen_id g \<in> timerIds ?s'"
      then show "gen_status g = PENDING"
        using g D(6) njob nst unfolding tids by (auto simp: db' jobIds_def image_iff)
    next
      fix j
      show "sys_runs ?s' j \<le> 1" using D(7) by simp
      assume pos: "0 < sys_runs ?s' j"
      then show "j \<in> sys_issued ?s'" using D(8) by simp
      from pos have "j \<noteq> env_newId env" using nrun by auto
      then show "j \<notin> timerIds ?s'" unfolding tids using D(9) pos by simp
    qed
  qed
qed

lemma jobs_inv_initial: "jobs_inv initial"
  by (simp add: jobs_inv_def initial_def emptyDatabase_def jobIds_def timerIds_def)

lemma jobs_inv_step:
  assumes "step s s'" "jobs_inv s"
  shows "jobs_inv s'"
  using assms
proof (induction rule: step.induct)
  case (Submit env s user body res db' ts)
  then show ?case by (simp add: jobs_inv_submit)
next
  case (Fire t s env)
  then show ?case by (simp add: jobs_inv_fire)
next
  case (UploadBegin uenv user pid fl s product imageUrl ubody)
  show ?case
    by (rule jobs_inv_filter [OF UploadBegin(2), where P = "\<lambda>_. True"])
       (simp_all add: jobs_invD(2) [OF UploadBegin(2)])
next
  case (UploadUpdateMany u s db')
  show ?case
    by (rule jobs_inv_filter [OF UploadUpdateMany(4), where P = "\<lambda>_. True"])
       (simp_all add: demotePrimaries_generations [OF UploadUpdateMany(3)]
          jobs_invD(2) [OF UploadUpdateMany(4)])
next
  case (UploadUpdateManyThrows u s e)
  show ?case
    by (rule jobs_inv_filter [OF UploadUpdateManyThrows(4), where P = "\<lambda>_. True"])
       (simp_all add: jobs_invD(2) [OF UploadUpdateManyThrows(4)])
next
  case (UploadCreate u s)
  show ?case
    by (rule jobs_inv_filter [OF UploadCreate(3), where P = "\<lambda>_. True"])
       (simp_all add: jobs_invD(2) [OF UploadCreate(3)])
next
  case (DeleteUser fault uid s db')
  show ?case
    by (rule jobs_inv_filter [OF DeleteUser(2), where P = "\<lambda>g. gen_userId g \<noteq> uid"])
       (simp_all add: deleteUserTransaction_generations [OF DeleteUser(1)] jobs_invD(2) [OF DeleteUser(2)])
next
  case (Restart s)
  show ?case
    by (rule jobs_inv_filter [OF Restart, where P = "\<lambda>_. True"]) simp_all
qed (simp_all add: jobs_inv_same_jobs deleteProductTransaction_generations)

lemma reachable_jobs_inv: "reachable s \<Longrightarrow> jobs_inv s"
  by (induction rule: reachable.induct) (auto intro: jobs_inv_initial jobs_inv_step)

lemma generateImage_env1:
  "generateImage env1 (Some alice) body1 emptyDatabase =
     (success 202 ''Image generation started successfully''
        (GenerationStarted (summaryOf job1 None)), db1, [timer1])"
  by (simp add: generateImage_def createGeneration_def imageGeneration_create_def
        requestedProduct_def newGeneration_def env1_def body1_def alice_def emptyDatabase_def
        db1_def job1_def timer1_def Let_def)

lemma reachable_sysPending: "reachable sysPending"
proof -
  have "step initial
          (initial\<lparr>sys_db := db1, sys_timers := sys_timers initial @ [timer1],
                   sys_issued := insert (env_newId env1) (sys_issued initial)\<rparr>)"
    by (rule step.Submit [where user = "Some alice" and body = body1])
       (simp_all add: initial_def env1_def generateImage_env1 [unfolded env1_def])
  moreover have "initial\<lparr>sys_db := db1, sys_timers := sys_timers initial @ [timer1],
                   sys_issued := insert (env_newId env1) (sys_issued initial)\<rparr> = sysPending"
    by (simp add: initial_def sysPending_def env1_def)
  ultimately show ?thesis using reachable.Start reachable.Step by metis
qed

lemma encode_REALISTIC: "encodeURIComponent ''REALISTIC'' = ''REALISTIC''"
  by (simp add: encodeURIComponent_def unreserved_def)

lemma callback_ok:
  "generationCallback cbOk timer1 db1 = emptyDatabase\<lparr>imageGenerations := [job1Completed]\<rparr>"
  by (simp add: generationCallback_def imageGeneration_update_def cbOk_def timer1_def db1_def
        emptyDatabase_def job1_def job1Completed_def applyPatch_def completedPatch_def
        encode_REALISTIC Let_def)

lemma callback_first_throws: "generationCallback cbFirstThrows timer1 db1 = dbFailed"
  by (simp add: generationCallback_def imageGeneration_update_def cbFirstThrows_def timer1_def
        db1_def dbFailed_def emptyDatabase_def job1_def job1Failed_def applyPatch_def
        failedPatch_def Let_def)

lemma step_pending_completed: "step sysPending sysCompleted"
proof -
  have "step sysPending
          (sysPending\<lparr>sys_db := generationCallback cbOk timer1 (sys_db sysPending),
                      sys_timers := remove1 timer1 (sys_timers sysPending),
                      sys_runs := (sys_runs sysPending)
                        (timer_jobId timer1 := Suc (sys_runs sysPending (timer_jobId timer1)))\<rparr>)"
    by (rule step.Fire) (simp add: sysPending_def)
  moreover have "sysPending\<lparr>sys_db := generationCallback cbOk timer1 (sys_db sysPending),
                      sys_timers := remove1 timer1 (sys_timers sysPending),
                      sys_runs := (sys_runs sysPending)
                        (timer_jobId timer1 := Suc (sys_runs sysPending (timer_jobId timer1)))\<rparr>
                 = sysCompleted"
    by (simp add: sysPending_def sysCompleted_def callback_ok) (simp add: timer1_def)
  ultimately show ?thesis by simp
qed

lemma step_pending_failed: "step sysPending sysFailed"
proof -
  have "step sysPending
          (sysPending\<lparr>sys_db := generationCallback cbFirstThrows timer1 (sys_db sysPending),
                      sys_timers := remove1 timer1 (sys_timers sysPending),
                      sys_runs := (sys_runs sysPending)
                        (timer_jobId timer1 := Suc (sys_runs sysPending (timer_jobId timer1)))\<rparr>)"
    by (rule step.Fire) (simp add: sysPending_def)
  moreover have "sysPending\<lparr>sys_db := generationCallback cbFirstThrows timer1 (sys_db sysPending),
                      sys_timers := remove1 timer1 (sys_timers sysPending),
                      sys_runs := (sys_runs sysPending)
                        (timer_jobId timer1 := Suc (sys_runs sysPending (timer_jobId timer1)))\<rparr>
                 = sysFailed"
    by (simp add: sysPending_def sysFailed_def callback_first_throws) (simp add: timer1_def)
  ultimately show ?thesis by simp
qed

lemma reachable_sysCompleted: "reachable sysCompleted"
  using reachable_sysPending step_pending_completed by (rule reachable.Step)

lemma reachable_sysFailed: "reachable sysFailed"
  using reachable_sysPending step_pending_failed by (rule reachable.Step)

section \<open>Properties of the generation jobs\<close>

text \<open>
  C2. In every reachable state of the system and for every job: a completed job has its
  result reference (\<^verbatim>\<open>imageUrl\<close>) and no error (\<^verbatim>\<open>errorMessage\<close>), a failed job has
  its error and no result reference, and a pending or running job has neither.
\<close>

theorem job_fields_match_state:
  assumes "reachable s" and "g \<in> set (imageGenerations (sys_db s))"
  shows "(gen_status g = COMPLETED \<longrightarrow> gen_imageUrl g \<noteq> None \<and> gen_errorMessage g = None) \<and>
         (gen_status g = FAILED \<longrightarrow> gen_errorMessage g \<noteq> None \<and> gen_imageUrl g = None) \<and>
         (gen_status g = PENDING \<or> gen_status g = RUNNING \<longrightarrow>
            gen_imageUrl g = None \<and> gen_errorMessage g = None)"
proof -
  have "consistent g"
    using jobs_invD(5) [OF reachable_jobs_inv [OF assms(1)] assms(2)] .
  then show ?thesis
    by (cases "gen_status g") (simp_all add: consistent_def)
qed

theorem job_fields_match_state_witness:
  "reachable sysCompleted \<and> job1Completed \<in> set (imageGenerations (sys_db sysCompleted)) \<and>
   gen_status job1Completed = COMPLETED \<and> gen_imageUrl job1Completed \<noteq> None \<and>
   gen_errorMessage job1Completed = None \<and>
   reachable sysFailed \<and> job1Failed \<in> set (imageGenerations (sys_db sysFailed)) \<and>
   gen_status job1Failed = FAILED \<and> gen_errorMessage job1Failed \<noteq> None \<and>
   gen_imageUrl job1Failed = None \<and>
   reachable sysPending \<and> job1 \<in> set (imageGenerations (sys_db sysPending)) \<and>
   gen_status job1 = PENDING \<and> gen_imageUrl job1 = None \<and> gen_errorMessage job1 = None"
proof -
  have c: "job1Completed \<in> set (imageGenerations (sys_db sysCompleted))"
    by (simp add: sysCompleted_def emptyDatabase_def)
  have f: "job1Failed \<in> set (imageGenerations (sys_db sysFailed))"
    by (simp add: sysFailed_def dbFailed_def emptyDatabase_def)
  have p: "job1 \<in> set (imageGenerations (sys_db sysPending))"
    by (simp add: sysPending_def db1_def emptyDatabase_def)
  have sc: "gen_status job1Completed = COMPLETED" by (simp add: job1Completed_def)
  have sf: "gen_status job1Failed = FAILED" by (simp add: job1Failed_def)
  have sp: "gen_status job1 = PENDING" by (simp add: job1_def)
  show ?thesis
    using job_fields_match_state [OF reachable_sysCompleted c]
          job_fields_match_state [OF reachable_sysFailed f]
          job_fields_match_state [OF reachable_sysPending p]
          reachable_sysCompleted reachable_sysFailed reachable_sysPending c f p sc sf sp
    by simp
qed

lemma find_unique_member:
  assumes "distinct (map f xs)" "x \<in> set xs" "y \<in> set xs" "f x = f y"
  shows "x = y"
  using assms by (meson distinct_map inj_on_def)

lemma step_job_cases:
  assumes st: "step s s'" and inv: "jobs_inv s"
    and g: "g \<in> set (imageGenerations (sys_db s))"
    and g': "g' \<in> set (imageGenerations (sys_db s'))"
    and same: "gen_id g' = gen_id g"
  shows "g' = g \<or>
         (gen_status g = PENDING \<and> gen_id g \<in> timerIds s \<and>
          (g' = applyPatch failedPatch g \<or> (\<exists>url now. g' = applyPatch (completedPatch url now) g)))"
proof -
  note D = jobs_invD [OF inv]
  have uniq: "\<And>x. x \<in> set (imageGenerations (sys_db s)) \<Longrightarrow> gen_id x = gen_id g \<Longrightarrow> x = g"
    using find_unique_member [OF D(1) _ g] by blast
  have sub: "set (imageGenerations (sys_db s')) \<subseteq> set (imageGenerations (sys_db s)) \<Longrightarrow> g' = g"
    using g' same uniq by auto
  from st g' sub show ?thesis
  proof (cases rule: step.cases)
    case (Submit env user body res db' ts)
    from generateImage_cases [OF Submit(3)] show ?thesis
    proof (elim disjE exE conjE)
      assume "db' = sys_db s"
      then show ?thesis using sub Submit(1) by simp
    next
      fix u product
      assume db': "db' = (sys_db s)\<lparr>imageGenerations :=
                    imageGenerations (sys_db s) @ [newGeneration env u body product]\<rparr>"
      have "gen_id g \<in> sys_issued s" using D(3) g by (auto simp: jobIds_def)
      then have "gen_id g \<noteq> env_newId env" using Submit(2) by auto
      then have "g' \<noteq> newGeneration env u body product"
        using same by (auto simp: newGeneration_def)
      then have "g' \<in> set (imageGenerations (sys_db s))"
        using g' Submit(1) db' by auto
      then show ?thesis using uniq same by auto
    qed
  next
    case (Fire t env)
    have tin: "timer_jobId t \<in> timerIds s" using Fire(2) by (auto simp: timerIds_def)
    from generationCallback_cases [of env t "sys_db s"]
    consider "generationCallback env t (sys_db s) = sys_db s"
      | p where "p = failedPatch \<or> (\<exists>url now. p = completedPatch url now)"
          "generationCallback env t (sys_db s) =
            (sys_db s)\<lparr>imageGenerations :=
               map (\<lambda>g. if gen_id g = timer_jobId t then applyPatch p g else g)
                   (imageGenerations (sys_db s))\<rparr>"
      by blast
    then show ?thesis
    proof cases
      case 1
      then show ?thesis using sub Fire(1) by simp
    next
      case (2 p)
      from g' obtain g0 where g0: "g0 \<in> set (imageGenerations (sys_db s))"
        "g' = (if gen_id g0 = timer_jobId t then applyPatch p g0 else g0)"
        unfolding Fire(1) by (auto simp: 2(2))
      have "gen_id g0 = gen_id g" using g0(2) same by (auto split: if_splits)
      then have g0g: "g0 = g" using uniq g0(1) by simp
      show ?thesis
      proof (cases "gen_id g = timer_jobId t")
        case True
        then have "gen_status g = PENDING" using D(6) [OF g] tin by simp
        then show ?thesis using True g0(2) g0g 2(1) tin by auto
      next
        case False
        then show ?thesis using g0(2) g0g by simp
      qed
    qed
  next
    case (DeleteProduct fault pid db')
    then show ?thesis using sub deleteProductTransaction_generations [OF DeleteProduct(2)] by simp
  next
    case (DeleteUser fault uid db')
    then show ?thesis using sub deleteUserTransaction_generations [OF DeleteUser(2)] by simp
  next
    case (UploadUpdateMany u db')
    then show ?thesis using sub demotePrimaries_generations [OF UploadUpdateMany(4)] by simp
  qed (use sub in simp_all)
qed

text \<open>
  C1 (as the code has it). In every reachable state, one step of the system leaves the
  record of a job as it is, or moves its state from \<^verbatim>\<open>PENDING\<close> to \<^verbatim>\<open>COMPLETED\<close> or from
  \<^verbatim>\<open>PENDING\<close> to \<^verbatim>\<open>FAILED\<close>; these are the two writes of the timer's callback. A
  completed or failed job therefore never changes again, and no job is ever
  \<^verbatim>\<open>RUNNING\<close>.
\<close>

theorem status_edges:
  assumes "reachable s" and "step s s'"
    and "g \<in> set (imageGenerations (sys_db s))"
    and "g' \<in> set (imageGenerations (sys_db s'))"
    and "gen_id g' = gen_id g"
  shows "gen_status g \<noteq> RUNNING \<and> gen_status g' \<noteq> RUNNING \<and>
         (g' = g \<or> codeEdge (gen_status g) (gen_status g'))"
proof -
  have inv: "jobs_inv s" using assms(1) by (rule reachable_jobs_inv)
  have inv': "jobs_inv s'" using inv assms(2) by (simp add: jobs_inv_step)
  have "consistent g" "consistent g'"
    using jobs_invD(5) [OF inv assms(3)] jobs_invD(5) [OF inv' assms(4)] by simp_all
  then have "gen_status g \<noteq> RUNNING" "gen_status g' \<noteq> RUNNING"
    by (auto simp: consistent_def)
  moreover have "g' = g \<or> codeEdge (gen_status g) (gen_status g')"
    using step_job_cases [OF assms(2) inv assms(3,4,5)]
    by (auto simp: codeEdge_def applyPatch_def failedPatch_def completedPatch_def)
  ultimately show ?thesis by simp
qed

theorem status_edges_witness:
  "reachable sysPending \<and> step sysPending sysCompleted \<and>
   job1 \<in> set (imageGenerations (sys_db sysPending)) \<and>
   job1Completed \<in> set (imageGenerations (sys_db sysCompleted)) \<and>
   gen_id job1Completed = gen_id job1 \<and> job1Completed \<noteq> job1 \<and>
   codeEdge (gen_status job1) (gen_status job1Completed)"
proof -
  have p: "job1 \<in> set (imageGenerations (sys_db sysPending))"
    by (simp add: sysPending_def db1_def emptyDatabase_def)
  have c: "job1Completed \<in> set (imageGenerations (sys_db sysCompleted))"
    by (simp add: sysCompleted_def emptyDatabase_def)
  have i: "gen_id job1Completed = gen_id job1" by (simp add: job1Completed_def)
  have n: "job1Completed \<noteq> job1" by (simp add: job1Completed_def job1_def)
  show ?thesis
    using status_edges [OF reachable_sysPending step_pending_completed p c i]
          reachable_sysPending step_pending_completed p c i n
    by simp
qed

text \<open>
  The edge from \<^verbatim>\<open>PENDING\<close> to \<^verbatim>\<open>COMPLETED\<close>, which the callback takes, is not among the
  edges of the specification.
\<close>

theorem status_edges_counterexample:
  "reachable sysPending \<and> step sysPending sysCompleted \<and>
   job1 \<in> set (imageGenerations (sys_db sysPending)) \<and>
   job1Completed \<in> set (imageGenerations (sys_db sysCompleted)) \<and>
   gen_id job1Completed = gen_id job1 \<and>
   gen_status job1 = PENDING \<and> gen_status job1Completed = COMPLETED \<and>
   \<not> specEdge (gen_status job1) (gen_status job1Completed)"
  using reachable_sysPending step_pending_completed
  by (simp add: sysPending_def sysCompleted_def db1_def emptyDatabase_def job1Completed_def
        job1_def specEdge_def)

lemma find_map_patch:
  "find (\<lambda>g. gen_id g = jid) (map (\<lambda>g. if gen_id g = jid then applyPatch p g else g) gs) =
   map_option (applyPatch p) (find (\<lambda>g. gen_id g = jid) gs)"
  by (induction gs) auto

lemma lookup_None_iff: "lookupGeneration db jid = None \<longleftrightarrow> jid \<notin> gen_id ` set (imageGenerations db)"
  by (auto simp: lookupGeneration_def find_None_iff)

lemma lookup_member:
  "lookupGeneration db jid = Some g \<Longrightarrow> g \<in> set (imageGenerations db) \<and> gen_id g = jid"
  by (auto simp: lookupGeneration_def find_Some_iff in_set_conv_nth)

lemma update_lookup:
  assumes "lookupGeneration db jid = Some g"
  shows "imageGeneration_update False db jid p =
           Inr (db\<lparr>imageGenerations :=
                  map (\<lambda>g. if gen_id g = jid then applyPatch p g else g) (imageGenerations db)\<rparr>)"
    and "lookupGeneration
           (db\<lparr>imageGenerations :=
                  map (\<lambda>g. if gen_id g = jid then applyPatch p g else g) (imageGenerations db)\<rparr>)
           jid = Some (applyPatch p g)"
proof -
  have "jid \<in> gen_id ` set (imageGenerations db)"
    using assms lookup_None_iff [of db jid] by auto
  then show "imageGeneration_update False db jid p =
           Inr (db\<lparr>imageGenerations :=
                  map (\<lambda>g. if gen_id g = jid then applyPatch p g else g) (imageGenerations db)\<rparr>)"
    by (simp add: imageGeneration_update_def)
  show "lookupGeneration
           (db\<lparr>imageGenerations :=
                  map (\<lambda>g. if gen_id g = jid then applyPatch p g else g) (imageGenerations db)\<rparr>)
           jid = Some (applyPatch p g)"
    using assms by (simp add: lookupGeneration_def find_map_patch)
qed

lemma callback_lookup:
  assumes "lookupGeneration db (timer_jobId t) = Some g"
  shows "lookupGeneration (generationCallback env t db) (timer_jobId t) =
           Some (if \<not> cb_updateThrows env
                 then applyPatch (completedPatch (placeholderUrl t) (cb_now env)) g
                 else if \<not> cb_fallbackThrows env then applyPatch failedPatch g
                 else g)"
proof -
  note u = update_lookup [OF assms]
  show ?thesis
  proof (cases "cb_updateThrows env")
    case False
    then show ?thesis
      using u [of "completedPatch (placeholderUrl t) (cb_now env)"]
      by (simp add: generationCallback_def Let_def)
  next
    case True
    then have first: "imageGeneration_update (cb_updateThrows env) db (timer_jobId t) p =
                      Inl DatabaseFailure" for p
      by (simp add: imageGeneration_update_def)
    show ?thesis
    proof (cases "cb_fallbackThrows env")
      case False
      then show ?thesis
        using True first u [of failedPatch] by (simp add: generationCallback_def Let_def)
    next
      case fb: True
      then have "imageGeneration_update (cb_fallbackThrows env) db (timer_jobId t) failedPatch =
                 Inl DatabaseFailure"
        by (simp add: imageGeneration_update_def)
      then show ?thesis
        using True fb first assms by (simp add: generationCallback_def Let_def)
    qed
  qed
qed





text \<open>
  C6 (as the code has it). There is no attempt counter and no retry. In every reachable
  state the callback of a job has run at most once, and a job whose callback has run has
  no timer left. A job with an armed timer is \<^verbatim>\<open>PENDING\<close>, and the one run of its
  callback completes it when the first update does not throw, fails it with the message
  \<^verbatim>\<open>Image generation failed\<close> when the first update throws and the second does not, and
  leaves it \<^verbatim>\<open>PENDING\<close> when both throw. Every failed job carries that message.
\<close>

theorem single_attempt:
  assumes "reachable s"
  shows "sys_runs s j \<le> 1 \<and>
         (0 < sys_runs s j \<longrightarrow> j \<notin> timerIds s) \<and>
         (\<forall>g \<in> set (imageGenerations (sys_db s)).
            gen_status g = FAILED \<longrightarrow> gen_errorMessage g = Some ''Image generation failed'') \<and>
         (\<forall>t \<in> set (sys_timers s). \<forall>g env.
            lookupGeneration (sys_db s) (timer_jobId t) = Some g \<longrightarrow>
            gen_status g = PENDING \<and>
            lookupGeneration (generationCallback env t (sys_db s)) (timer_jobId t) =
              Some (if \<not> cb_updateThrows env
                    then applyPatch (completedPatch (placeholderUrl t) (cb_now env)) g
                    else if \<not> cb_fallbackThrows env then applyPatch failedPatch g
                    else g))"
proof -
  note D = jobs_invD [OF reachable_jobs_inv [OF assms]]
  have failed: "gen_errorMessage g = Some ''Image generation failed''"
    if "g \<in> set (imageGenerations (sys_db s))" "gen_status g = FAILED" for g
    using D(5) [OF that(1)] that(2) by (simp add: consistent_def)
  have pending: "gen_status g = PENDING"
    if "t \<in> set (sys_timers s)" "lookupGeneration (sys_db s) (timer_jobId t) = Some g" for t g
  proof -
    have "g \<in> set (imageGenerations (sys_db s))" "gen_id g = timer_jobId t"
      using lookup_member [OF that(2)] by simp_all
    moreover have "timer_jobId t \<in> timerIds s" using that(1) by (auto simp: timerIds_def)
    ultimately show ?thesis using D(6) by simp
  qed
  show ?thesis
    using D(7) [of j] D(9) [of j] failed pending callback_lookup by blast
qed

theorem single_attempt_witness:
  "reachable sysFailed \<and> sys_runs sysFailed job1Id = 1 \<and> job1Id \<notin> timerIds sysFailed \<and>
   job1Failed \<in> set (imageGenerations (sys_db sysFailed)) \<and> gen_status job1Failed = FAILED \<and>
   gen_errorMessage job1Failed = Some ''Image generation failed'' \<and>
   reachable sysPending \<and> timer1 \<in> set (sys_timers sysPending) \<and>
   lookupGeneration (sys_db sysPending) (timer_jobId timer1) = Some job1 \<and>
   gen_status job1 = PENDING \<and>
   lookupGeneration (generationCallback cbBothThrow timer1 (sys_db sysPending))
     (timer_jobId timer1) = Some job1"
proof -
  have r: "sys_runs sysFailed job1Id = 1" by (simp add: sysFailed_def)
  have f: "job1Failed \<in> set (imageGenerations (sys_db sysFailed))"
    by (simp add: sysFailed_def dbFailed_def emptyDatabase_def)
  have sf: "gen_status job1Failed = FAILED" by (simp add: job1Failed_def)
  have t: "timer1 \<in> set (sys_timers sysPending)" by (simp add: sysPending_def)
  have l: "lookupGeneration (sys_db sysPending) (timer_jobId timer1) = Some job1"
    by (simp add: sysPending_def lookupGeneration_def db1_def emptyDatabase_def job1_def
          timer1_def)
  have b: "cb_updateThrows cbBothThrow" "cb_fallbackThrows cbBothThrow"
    by (simp_all add: cbBothThrow_def)
  show ?thesis
    using single_attempt [OF reachable_sysFailed, of job1Id]
          single_attempt [OF reachable_sysPending, of job1Id]
          reachable_sysFailed reachable_sysPending r f sf t l b
    by auto
qed

text \<open>
  The first failing attempt already ends the job, and the cause it records is not
  \<^verbatim>\<open>RETRIES_EXHAUSTED\<close>.
\<close>

theorem single_attempt_counterexample:
  "reachable sysPending \<and> step sysPending sysFailed \<and>
   sys_runs sysPending job1Id = 0 \<and> sys_runs sysFailed job1Id = 1 \<and>
   lookupGeneration (sys_db sysFailed) job1Id = Some job1Failed \<and>
   gen_status job1Failed = FAILED \<and>
   gen_errorMessage job1Failed \<noteq> Some ''RETRIES_EXHAUSTED''"
  using reachable_sysPending step_pending_failed
  by (simp add: sysPending_def sysFailed_def lookupGeneration_def dbFailed_def emptyDatabase_def
        job1Failed_def job1_def)

section \<open>Properties of the submission and of the routes\<close>











text \<open>
  C9 (as the code has it). A submission that names a product creates a job only when the
  product exists and the caller owns it or is an administrator. The job's owner is the
  caller; for a caller who is no administrator it is therefore the owner of the product,
  and such a caller's submission for somebody else's product creates nothing.
\<close>

theorem job_owner_at_creation:
  assumes "generateImage env (Some u) body db = (res, db', ts)"
    and "requestedProduct (body_productId body) = Some pid"
  shows "(res_status res = 202 \<longrightarrow>
            (\<exists>p g. find (\<lambda>p. product_id p = pid) (products db) = Some p \<and>
                   db' = db\<lparr>imageGenerations := imageGenerations db @ [g]\<rparr> \<and>
                   gen_productId g = Some (product_id p) \<and> gen_userId g = user_id u \<and>
                   (user_role u = ADMIN \<or> gen_userId g = product_userId p))) \<and>
         (\<forall>p. find (\<lambda>p. product_id p = pid) (products db) = Some p \<and>
              product_userId p \<noteq> user_id u \<and> user_role u \<noteq> ADMIN \<longrightarrow>
              res_status res \<in> {403, 500} \<and> db' = db \<and> ts = [])"
  using assms
  by (auto simp: generateImage_def createGeneration_def imageGeneration_create_def
        product_findUnique_def canUseProduct_def newGeneration_def failure_def success_def Let_def
        split: option.splits sum.splits if_splits)

theorem job_owner_at_creation_witness:
  "generateImage env1 (Some alice) bodyShoe dbShoe =
     (success 202 ''Image generation started successfully''
        (GenerationStarted (summaryOf (newGeneration env1 alice bodyShoe (Some shoe)) (Some shoe))),
      dbShoe\<lparr>imageGenerations := [newGeneration env1 alice bodyShoe (Some shoe)]\<rparr>, [timer1]) \<and>
   gen_userId (newGeneration env1 alice bodyShoe (Some shoe)) = product_userId shoe \<and>
   res_status (fst (generateImage env1 (Some bob) bodyShoe dbShoe)) = 403"
proof -
  have a: "generateImage env1 (Some alice) bodyShoe dbShoe =
     (success 202 ''Image generation started successfully''
        (GenerationStarted (summaryOf (newGeneration env1 alice bodyShoe (Some shoe)) (Some shoe))),
      dbShoe\<lparr>imageGenerations := [newGeneration env1 alice bodyShoe (Some shoe)]\<rparr>, [timer1])"
    by (simp add: generateImage_def createGeneration_def imageGeneration_create_def
          product_findUnique_def requestedProduct_def canUseProduct_def bodyShoe_def body1_def
          env1_def dbShoe_def emptyDatabase_def shoe_def alice_def timer1_def Let_def
          newGeneration_def)
  have b: "generateImage env1 (Some bob) bodyShoe dbShoe =
     (failure 403 ''You can only generate images for your own products''
        ''INSUFFICIENT_PERMISSIONS'', dbShoe, [])"
    by (simp add: generateImage_def product_findUnique_def requestedProduct_def
          canUseProduct_def bodyShoe_def body1_def env1_def dbShoe_def emptyDatabase_def
          shoe_def bob_def)
  have r: "requestedProduct (body_productId bodyShoe) = Some shoeId"
    by (simp add: requestedProduct_def bodyShoe_def body1_def)
  show ?thesis
    using job_owner_at_creation [OF a r] job_owner_at_creation [OF b r] a b
    by (simp add: newGeneration_def alice_def shoe_def failure_def)
qed

text \<open>
  An administrator creates a job for alice's product: the job is created and its owner
  is the administrator, not the owner of the product.
\<close>

theorem job_owner_at_creation_counterexample:
  "generateImage env1 (Some root) bodyShoe dbShoe =
     (success 202 ''Image generation started successfully''
        (GenerationStarted (summaryOf (newGeneration env1 root bodyShoe (Some shoe)) (Some shoe))),
      dbShoe\<lparr>imageGenerations := [newGeneration env1 root bodyShoe (Some shoe)]\<rparr>, [timer1]) \<and>
   gen_productId (newGeneration env1 root bodyShoe (Some shoe)) = Some (product_id shoe) \<and>
   gen_userId (newGeneration env1 root bodyShoe (Some shoe)) = ''u-root'' \<and>
   product_userId shoe = ''u-alice'' \<and>
   gen_userId (newGeneration env1 root bodyShoe (Some shoe)) \<noteq> product_userId shoe"
  by (simp add: generateImage_def createGeneration_def imageGeneration_create_def
        product_findUnique_def requestedProduct_def canUseProduct_def bodyShoe_def body1_def
        env1_def dbShoe_def emptyDatabase_def shoe_def root_def timer1_def Let_def
        newGeneration_def)

lemma escapes_plain: "CHR ''%'' \<notin> set s \<Longrightarrow> escapes s = Some (map Plain s)"
  by (induction s) auto

lemma wellFormed_plain: "wellFormed (map Plain s)"
  by (induction s) auto

lemma decode_plain: "CHR ''%'' \<notin> set s \<Longrightarrow> decodeURIComponent s = Some s"
  by (simp add: decodeURIComponent_def escapes_plain wellFormed_plain comp_def)

lemma delete_generation_route:
  "findRoute DELETE [''generations'', jid] =
     (if decodeURIComponent jid = None then DecodeFailed jid else NoRoute)"
  by (simp add: findRoute_def imageRoutes_def matchPath_def lowerChar_def)

text \<open>
  C8 (as the code has it). The images router has no route for \<^verbatim>\<open>DELETE\<close> on a
  generation. For every id and whatever the state of the job, such a request is answered
  by the global rate limiter, or it leaves the router without a handler: with 404 from
  the not-found handler when the id decodes, as every id without \<^verbatim>\<open>%\<close> does, and with
  500 from the error handler when it does not. In every case no handler of the
  controller runs, the database stays as it is and no timer is armed.
\<close>

theorem cancel_not_routed:
  "imagesApp globalRateLimit run DELETE [''generations'', jid] db =
     (case globalRateLimit of
        Respond r \<Rightarrow> (r, db, [])
      | Next _ \<Rightarrow>
          (if decodeURIComponent jid = None
           then \<lparr>res_status = 500, res_success = False, res_message = None,
                 res_error = Some ''Internal Server Error'', res_data = NoData\<rparr>
           else \<lparr>res_status = 404, res_success = False, res_message = None,
                 res_error = Some (''Route /api/images/generations/'' @ jid @ '' not found''),
                 res_data = NoData\<rparr>,
           db, [])) \<and>
   (CHR ''%'' \<notin> set jid \<longrightarrow> decodeURIComponent jid \<noteq> None)"
  by (simp add: imagesApp_def delete_generation_route errorHandler_def notFoundHandler_def
        decodeError_def errorStatus_def originalUrl_def decode_plain
      split: Middleware.splits)

theorem cancel_not_routed_witness:
  "CHR ''%'' \<notin> set job1Id \<and>
   imagesApp (Next ()) (\<lambda>h db. (success 200 [] NoData, db, [])) DELETE
     [''generations'', job1Id] db1 =
     (\<lparr>res_status = 404, res_success = False, res_message = None,
       res_error = Some (''Route /api/images/generations/'' @ job1Id @ '' not found''),
       res_data = NoData\<rparr>, db1, []) \<and>
   imagesApp (Next ()) (\<lambda>h db. (success 200 [] NoData, db, [])) DELETE
     [''generations'', ''%''] db1 =
     (\<lparr>res_status = 500, res_success = False, res_message = None,
       res_error = Some ''Internal Server Error'', res_data = NoData\<rparr>, db1, [])"
proof -
  have p: "CHR ''%'' \<notin> set job1Id" by simp
  have d: "decodeURIComponent ''%'' = None" by (simp add: decodeURIComponent_def)
  show ?thesis
    using cancel_not_routed [of "Next ()" "\<lambda>h db. (success 200 [] NoData, db, [])" job1Id db1]
          cancel_not_routed [of "Next ()" "\<lambda>h db. (success 200 [] NoData, db, [])" "''%''" db1]
          p d
    by simp
qed

text \<open>
  A cancel request for the pending job \<open>job1\<close> is answered 404, not 200, and the job
  stays \<^verbatim>\<open>PENDING\<close>.
\<close>

theorem cancel_not_routed_counterexample:
  "lookupGeneration db1 job1Id = Some job1 \<and> gen_status job1 = PENDING \<and>
   res_status (fst (imagesApp (Next ()) (\<lambda>h db. (success 200 [] NoData, db, []))
                      DELETE [''generations'', job1Id] db1)) = 404 \<and>
   fst (snd (imagesApp (Next ()) (\<lambda>h db. (success 200 [] NoData, db, []))
                      DELETE [''generations'', job1Id] db1)) = db1"
  by (simp add: lookupGeneration_def db1_def emptyDatabase_def job1_def imagesApp_def
        delete_generation_route decode_plain errorHandler_def notFoundHandler_def
        errorStatus_def)

section \<open>Properties of the product images\<close>

lemma primaries_unset_same:
  "primaries (db\<lparr>productImages :=
       map (\<lambda>i. if image_productId i = pid \<and> image_isPrimary i
                 then i\<lparr>image_isPrimary := False\<rparr> else i) (productImages db)\<rparr>) pid = []"
proof -
  have "filter (\<lambda>i. image_productId i = pid \<and> image_isPrimary i)
          (map (\<lambda>i. if image_productId i = pid \<and> image_isPrimary i
                 then i\<lparr>image_isPrimary := False\<rparr> else i) xs) = []" for xs :: "ProductImage list"
    by (induction xs) auto
  then show ?thesis by (simp add: primaries_def)
qed

lemma primaries_unset_other:
  "pid' \<noteq> pid \<Longrightarrow>
   primaries (db\<lparr>productImages :=
       map (\<lambda>i. if image_productId i = pid \<and> image_isPrimary i
                 then i\<lparr>image_isPrimary := False\<rparr> else i) (productImages db)\<rparr>) pid' =
   primaries db pid'"
proof -
  assume ne: "pid' \<noteq> pid"
  have "filter (\<lambda>i. image_productId i = pid' \<and> image_isPrimary i)
          (map (\<lambda>i. if image_productId i = pid \<and> image_isPrimary i
                 then i\<lparr>image_isPrimary := False\<rparr> else i) xs) =
        filter (\<lambda>i. image_productId i = pid' \<and> image_isPrimary i) xs"
    for xs :: "ProductImage list"
    using ne by (induction xs) auto
  then show ?thesis by (simp add: primaries_def)
qed

lemma primaries_append:
  "primaries (db\<lparr>productImages := productImages db @ [row]\<rparr>) p =
   primaries db p @ (if image_productId row = p \<and> image_isPrimary row then [row] else [])"
  by (simp add: primaries_def)

lemma primaries_filter_le:
  "productImages db' = filter Q (productImages db) \<Longrightarrow>
   length (primaries db' p) \<le> length (primaries db p)"
proof -
  assume "productImages db' = filter Q (productImages db)"
  then have "primaries db' p = filter Q (primaries db p)"
    by (simp add: primaries_def conj_commute)
  then show ?thesis by simp
qed

lemma primary_inv_filter:
  "primary_inv db \<Longrightarrow> productImages db' = filter Q (productImages db) \<Longrightarrow> primary_inv db'"
  unfolding primary_inv_def using primaries_filter_le le_trans by blast

lemma primary_inv_same:
  "primary_inv db \<Longrightarrow> productImages db' = productImages db \<Longrightarrow> primary_inv db'"
  by (simp add: primary_inv_def primaries_def)

lemma primary_inv_unset:
  assumes "primary_inv db" "productImage_updateMany fault db pid = Inr cleared"
  shows "primary_inv cleared \<and> primaries cleared pid = []"
proof -
  have cleared: "cleared = db\<lparr>productImages :=
       map (\<lambda>i. if image_productId i = pid \<and> image_isPrimary i
                 then i\<lparr>image_isPrimary := False\<rparr> else i) (productImages db)\<rparr>"
    using assms(2) by (auto simp: productImage_updateMany_def split: if_splits)
  have "length (primaries cleared p) \<le> 1" for p
    using assms(1) primaries_unset_same [where db = db and pid = pid]
      primaries_unset_other [where pid' = p and pid = pid and db = db]
    unfolding cleared primary_inv_def by (cases "p = pid") auto
  then show ?thesis
    using primaries_unset_same [where db = db and pid = pid] by (simp add: primary_inv_def cleared)
qed

lemma prepareUpload_refused:
  "prepareUpload env user pid file db = Inl r \<Longrightarrow> res_status r \<noteq> 201"
  by (auto simp: prepareUpload_def failure_def uploadFailed_def Let_def
           split: option.splits sum.splits if_splits)

lemma saveImage_primary:
  assumes inv: "primary_inv db" and save: "saveImage env product pid body url db = (res, db')"
  shows "primary_inv db' \<and>
         (res_status res = 201 \<and> truthy (upload_isPrimary body) \<longrightarrow>
            primaries db' pid = [newImage env product pid body url])"
proof (cases "truthy (upload_isPrimary body)")
  case False
  then have "primary_inv db'"
    using inv save
    by (auto simp: saveImage_def demotePrimaries_def createImage_def newImage_def
                   productImage_create_def primary_inv_def primaries_append
             split: sum.splits if_splits)
  then show ?thesis using False by simp
next
  case True
  show ?thesis
  proof (cases "productImage_updateMany (up_updateManyThrows env) db pid")
    case (Inl e)
    then show ?thesis
      using inv save True
      by (auto simp: saveImage_def demotePrimaries_def uploadFailed_def failure_def)
  next
    case (Inr cleared)
    note u = primary_inv_unset [OF inv Inr]
    have row: "image_productId (newImage env product pid body url) = pid"
              "image_isPrimary (newImage env product pid body url)"
      using True by (simp_all add: newImage_def)
    show ?thesis
      using save True Inr u row
      by (auto simp: saveImage_def demotePrimaries_def createImage_def productImage_create_def
                     primary_inv_def primaries_append uploadFailed_def failure_def
               split: sum.splits if_splits)
  qed
qed

text \<open>
  An upload that nothing interrupts keeps every product at one primary image at most,
  and after a successful one with \<^verbatim>\<open>isPrimary\<close> set the new image is the only primary image
  of its product.
\<close>

lemma uploadProductImage_primary:
  assumes inv: "primary_inv db"
    and up: "uploadProductImage env user pid body file db = (res, db')"
  shows "primary_inv db' \<and>
         (res_status res = 201 \<and> truthy (upload_isPrimary body) \<longrightarrow>
            (\<exists>row. primaries db' pid = [row] \<and> image_id row = up_newId env))"
proof (cases "prepareUpload env user pid file db")
  case (Inl r)
  then have "db' = db" "res = r" using up by (simp_all add: uploadProductImage_def)
  then show ?thesis using inv prepareUpload_refused [OF Inl] by simp
next
  case (Inr found)
  obtain product url where "found = (product, url)" by (cases found)
  then have "saveImage env product pid body url db = (res, db')"
    using up Inr by (simp add: uploadProductImage_def)
  from saveImage_primary [OF inv this] show ?thesis by (auto simp: newImage_def)
qed




lemma pending_distinct: "pending1 \<noteq> pending2" "pending2 \<noteq> pending1\<lparr>pending_phase := AwaitCreate\<rparr>"
  by (simp_all add: pending1_def pending2_def)



section \<open>Properties of the status query\<close>

text \<open>
  The handler by itself never changes the database; when the lookup throws it answers
  500, otherwise 404 when no job has the id, 403 when the job exists and the caller is
  neither its owner nor an administrator, and 200 with the job's row in every other
  case.
\<close>

lemma getImageGeneration_cases:
  "snd (getImageGeneration fault user jid db) = db \<and>
   res_status (fst (getImageGeneration fault user jid db)) =
     (if fault then 500
      else case lookupGeneration db jid of
             None \<Rightarrow> 404
           | Some g \<Rightarrow> if canAccessGeneration user g then 200 else 403) \<and>
   (res_status (fst (getImageGeneration fault user jid db)) = 200 \<longrightarrow>
      (\<exists>g. lookupGeneration db jid = Some g \<and>
           res_data (fst (getImageGeneration fault user jid db)) = GenerationRecord g))"
  by (auto simp: getImageGeneration_def imageGeneration_findUnique_def failure_def success_def
           split: option.splits)

lemma getImageGeneration_owner:
  "getImageGeneration False (Some alice) job1Id db1 =
     (success 200 ''Image generation retrieved successfully'' (GenerationRecord job1), db1)"
  by (simp add: getImageGeneration_def imageGeneration_findUnique_def lookupGeneration_def
        canAccessGeneration_def db1_def emptyDatabase_def job1_def alice_def)

lemma uuidSchema_object: "uuidSchema isUuid (JsObject members) = Inl [CHR 0x22 # ''value'' @ CHR 0x22 # '' must be a string'']"
  by (simp add: uuidSchema_def)

text \<open>
  C5 (where the code departs from it). The route of the status query validates
  \<^verbatim>\<open>req.params\<close>, an object, against a schema for strings. The validation therefore fails
  for every id, and every status query that passes the rate limiter and the
  authentication is answered 400; the handler is not reached. The owner's query for the
  existing job \<open>job1\<close>, which the handler would answer with 200 and the row, is answered
  400 as well. The database is not changed.
\<close>

theorem status_query_rejected:
  "getGenerationById isUuid hits (Next u) fault jid db =
     (if 50 \<le> hits
      then (failure 429 ''Too many image requests, please try again later''
              ''RATE_LIMIT_EXCEEDED'', db)
      else (failure 400 ''Validation failed'' ''VALIDATION_ERROR'', db)) \<and>
   getGenerationById isUuid 0 (Next alice) False job1Id db1 =
     (failure 400 ''Validation failed'' ''VALIDATION_ERROR'', db1) \<and>
   getImageGeneration False (Some alice) job1Id db1 =
     (success 200 ''Image generation retrieved successfully'' (GenerationRecord job1), db1)"
  by (simp add: getGenerationById_def imageOperationsLimit_def rateLimit_def
        validateRequest_def uuidSchema_object getImageGeneration_owner)

end
